theory Spec2Isabelle
  imports Main "HOL-Library.Sublist"
begin

section \<open>Data model\<close>

text \<open>
  The bot (\<^verbatim>\<open>src/bot.py\<close>) keeps all of its state in three MongoDB collections and
  talks to Telegram through \<^verbatim>\<open>python-telegram-bot\<close>. The embedding threads one
  \<open>world\<close> record through every function: the three collections, the lines written to
  the logger, the outbound Telegram calls attempted so far, and the bot object's
  \<^verbatim>\<open>group_id\<close>. Whether an external call (a driver call, a Telegram call) succeeds
  is not decided by the program; each call site takes that outcome as a boolean input.
\<close>

type_synonym datetime = int
  \<comment> \<open>a \<^verbatim>\<open>datetime\<close>: microseconds since 0001-01-01 00:00:00\<close>

datatype exn =
  PyMongoError | TelegramError | AttributeError | TypeError | ValueError
  | OverflowError | UnboundLocalError

datatype level = INFO | ERROR

record user_doc =
  username :: string
  first_name :: string
  last_name :: string
  join_date :: datetime
  warning_count :: int
  is_muted :: bool
  is_banned :: bool
  subscription_expiry :: "datetime option"
  last_reminder :: "datetime option"
  last_warning :: "datetime option"

record warning_doc =
  w_user_id :: int
  reason :: string
  admin_id :: int
  timestamp :: datetime
  resolved :: bool

record sub_doc =
  expiry_date :: datetime
  updated_at :: datetime

text \<open>The texts the bot sends, by template and by the values interpolated into them.\<close>

datatype notice =
  WarningNotice int string string
    \<comment> \<open>warning number, first name, reason\<close>
  | MuteNotice string string int
    \<comment> \<open>first name, reason, warnings\<close>
  | BanNotice string string int
    \<comment> \<open>first name, reason, total warnings\<close>
  | ViolationAlert string string int string int string datetime
    \<comment> \<open>first name, username or N/A, id, reason, warnings, action, time\<close>
  | ExpiredAlert int string
    \<comment> \<open>user id, name\<close>
  | ReminderNotice
  | UsageReply
  | WarningIssuedReply int
  | InvalidUserIdReply
  | ErrorIssuingReply

datatype call =
  SendMessage int notice
    \<comment> \<open>\<^verbatim>\<open>bot.send_message(chat_id, text)\<close>\<close>
  | DeleteMessage
    \<comment> \<open>\<^verbatim>\<open>update.message.delete()\<close>\<close>
  | RestrictMember int int int
    \<comment> \<open>\<^verbatim>\<open>chat.restrict_member\<close>: chat id, user id, until date\<close>
  | BanMember int int
    \<comment> \<open>\<^verbatim>\<open>chat.ban_member\<close> and \<^verbatim>\<open>bot.ban_chat_member\<close>: chat id, user id\<close>
  | ReplyText notice
    \<comment> \<open>\<^verbatim>\<open>update.message.reply_text\<close>\<close>

record world =
  users :: "int \<rightharpoonup> user_doc"
    \<comment> \<open>collection \<^verbatim>\<open>users\<close>, with its unique index on \<^verbatim>\<open>user_id\<close>\<close>
  warnings :: "warning_doc list"
    \<comment> \<open>collection \<^verbatim>\<open>warnings\<close>, in insertion order\<close>
  subscriptions :: "(int \<times> sub_doc) list"
    \<comment> \<open>collection \<^verbatim>\<open>subscriptions\<close>, in natural order, keyed by \<^verbatim>\<open>user_id\<close>\<close>
  logs :: "(level \<times> string) list"
  outbox :: "(call \<times> bool) list"
    \<comment> \<open>the Telegram calls attempted, each with its outcome\<close>
  group_id :: "int option"

type_synonym 'a result = "(exn + 'a) \<times> world"
  \<comment> \<open>what a call leaves: the exception it raises or the value it returns, and the state\<close>

definition log_error :: "string \<Rightarrow> world \<Rightarrow> world" where
  "log_error m w = w\<lparr>logs := logs w @ [(ERROR, m)]\<rparr>"

definition log_info :: "string \<Rightarrow> world \<Rightarrow> world" where
  "log_info m w = w\<lparr>logs := logs w @ [(INFO, m)]\<rparr>"

section \<open>DatabaseManager\<close>

text \<open>
  Every method wraps its driver calls in \<^verbatim>\<open>try ... except PyMongoError\<close>. The flag
  \<open>ok\<close> of a driver call says that the call does not raise; the \<open>\<not> ok\<close> branch is the
  \<^verbatim>\<open>except\<close> clause.
\<close>

definition update_user_doc :: "int \<Rightarrow> (user_doc \<Rightarrow> user_doc) \<Rightarrow> world \<Rightarrow> world" where
  \<comment> \<open>\<^verbatim>\<open>users.update_one({"user_id": user_id}, ...)\<close>, no upsert\<close>
  "update_user_doc user_id f w =
     (case users w user_id of
        None \<Rightarrow> w
      | Some d \<Rightarrow> w\<lparr>users := (users w)(user_id \<mapsto> f d)\<rparr>)"

definition get_user :: "bool \<Rightarrow> int \<Rightarrow> world \<Rightarrow> (user_doc option) result" where
  "get_user ok user_id w =
     (if ok then (Inr (users w user_id), w)
      else (Inr None, log_error ''Error getting user'' w))"

definition create_user ::
  "bool \<Rightarrow> datetime \<Rightarrow> int \<Rightarrow> string \<Rightarrow> string \<Rightarrow> string \<Rightarrow> world \<Rightarrow> unit result" where
  \<comment> \<open>\<^verbatim>\<open>insert_one\<close> raises DuplicateKeyError, a PyMongoError, on an id already stored\<close>
  "create_user ok now user_id uname fname lname w =
     (if ok \<and> users w user_id = None then
        (Inr (), log_info ''Created user record''
           (w\<lparr>users := (users w)(user_id \<mapsto>
              \<lparr>username = uname, first_name = fname, last_name = lname,
               join_date = now, warning_count = 0, is_muted = False, is_banned = False,
               subscription_expiry = None, last_reminder = None, last_warning = None\<rparr>)\<rparr>))
      else (Inr (), log_error ''Error creating user'' w))"

definition update_user_warning ::
  "bool \<Rightarrow> datetime \<Rightarrow> int \<Rightarrow> bool \<Rightarrow> world \<Rightarrow> bool result" where
  "update_user_warning ok now user_id increment w =
     (if ok then
        (Inr (users w user_id \<noteq> None),
         update_user_doc user_id
           (\<lambda>d. if increment
                then d\<lparr>warning_count := warning_count d + 1, last_warning := Some now\<rparr>
                else d\<lparr>warning_count := warning_count d - 1\<rparr>) w)
      else (Inr False, log_error ''Error updating warnings'' w))"

definition reset_user_warnings :: "bool \<Rightarrow> int \<Rightarrow> world \<Rightarrow> unit result" where
  "reset_user_warnings ok user_id w =
     (if ok then (Inr (), update_user_doc user_id (\<lambda>d. d\<lparr>warning_count := 0\<rparr>) w)
      else (Inr (), log_error ''Error resetting warnings'' w))"

definition set_user_muted :: "bool \<Rightarrow> int \<Rightarrow> bool \<Rightarrow> world \<Rightarrow> unit result" where
  "set_user_muted ok user_id muted w =
     (if ok then (Inr (), update_user_doc user_id (\<lambda>d. d\<lparr>is_muted := muted\<rparr>) w)
      else (Inr (), log_error ''Error setting mute status'' w))"

definition set_user_banned :: "bool \<Rightarrow> int \<Rightarrow> bool \<Rightarrow> world \<Rightarrow> unit result" where
  "set_user_banned ok user_id banned w =
     (if ok then (Inr (), update_user_doc user_id (\<lambda>d. d\<lparr>is_banned := banned\<rparr>) w)
      else (Inr (), log_error ''Error setting ban status'' w))"

definition add_warning ::
  "bool \<Rightarrow> datetime \<Rightarrow> int \<Rightarrow> string \<Rightarrow> int \<Rightarrow> world \<Rightarrow> unit result" where
  "add_warning ok now user_id rsn adm w =
     (if ok then
        (Inr (), w\<lparr>warnings := warnings w @
           [\<lparr>w_user_id = user_id, reason = rsn, admin_id = adm,
             timestamp = now, resolved = False\<rparr>]\<rparr>)
      else (Inr (), log_error ''Error adding warning'' w))"

definition cursor_limit :: "int \<Rightarrow> 'a list \<Rightarrow> 'a list" where
  \<comment> \<open>a cursor's \<^verbatim>\<open>limit\<close>: 0 is no limit, a negative limit counts as its absolute value\<close>
  "cursor_limit n xs = (if n = 0 then xs else take (nat \<bar>n\<bar>) xs)"

definition get_user_warnings ::
  "bool \<Rightarrow> int \<Rightarrow> int \<Rightarrow> world \<Rightarrow> (warning_doc list) result" where
  \<comment> \<open>most recent first; among equal timestamps the order here is that of insertion\<close>
  "get_user_warnings ok user_id limit w =
     (if ok then
        (Inr (cursor_limit limit
           (sort_key (\<lambda>d. - timestamp d) (filter (\<lambda>d. w_user_id d = user_id) (warnings w)))), w)
      else (Inr [], log_error ''Error getting warnings'' w))"

definition DAY :: int where
  "DAY = 86400000000"

definition DATETIME_END :: int where
  \<comment> \<open>one microsecond past \<^verbatim>\<open>datetime.max\<close> (9999-12-31 23:59:59.999999)\<close>
  "DATETIME_END = 3652059 * DAY"

definition timedelta_days :: "int \<Rightarrow> exn + int" where
  \<comment> \<open>\<^verbatim>\<open>timedelta(days=days)\<close>, in microseconds\<close>
  "timedelta_days days =
     (if \<bar>days\<bar> \<le> 999999999 then Inr (days * DAY) else Inl OverflowError)"

definition datetime_add :: "datetime \<Rightarrow> int \<Rightarrow> exn + datetime" where
  "datetime_add t delta =
     (if 0 \<le> t + delta \<and> t + delta < DATETIME_END then Inr (t + delta)
      else Inl OverflowError)"

fun upsert_subscription ::
  "int \<Rightarrow> datetime \<Rightarrow> datetime \<Rightarrow> (int \<times> sub_doc) list \<Rightarrow> (int \<times> sub_doc) list" where
  "upsert_subscription user_id e u [] = [(user_id, \<lparr>expiry_date = e, updated_at = u\<rparr>)]"
| "upsert_subscription user_id e u ((k, d) # rest) =
     (if k = user_id then (k, d\<lparr>expiry_date := e, updated_at := u\<rparr>) # rest
      else (k, d) # upsert_subscription user_id e u rest)"

fun delete_subscription :: "int \<Rightarrow> (int \<times> sub_doc) list \<Rightarrow> (int \<times> sub_doc) list" where
  "delete_subscription user_id [] = []"
| "delete_subscription user_id ((k, d) # rest) =
     (if k = user_id then rest else (k, d) # delete_subscription user_id rest)"

definition add_subscription ::
  "bool \<Rightarrow> bool \<Rightarrow> datetime \<Rightarrow> datetime \<Rightarrow> int \<Rightarrow> int \<Rightarrow> world \<Rightarrow> unit result" where
  \<comment> \<open>\<open>now\<close> and \<open>now'\<close> are the two readings of \<^verbatim>\<open>datetime.utcnow()\<close>; an OverflowError
      of the date arithmetic is no PyMongoError and leaves the method\<close>
  "add_subscription ok1 ok2 now now' user_id days w =
     (case timedelta_days days of
        Inl e \<Rightarrow> (Inl e, w)
      | Inr delta \<Rightarrow>
     (case datetime_add now delta of
        Inl e \<Rightarrow> (Inl e, w)
      | Inr expiry \<Rightarrow>
          if \<not> ok1 then (Inr (), log_error ''Error adding subscription'' w)
          else
            let w1 = w\<lparr>subscriptions := upsert_subscription user_id expiry now' (subscriptions w)\<rparr>
            in if \<not> ok2 then (Inr (), log_error ''Error adding subscription'' w1)
               else (Inr (), log_info ''Subscription added''
                       (update_user_doc user_id (\<lambda>d. d\<lparr>subscription_expiry := Some expiry\<rparr>) w1))))"

definition get_expired_subscriptions :: "bool \<Rightarrow> datetime \<Rightarrow> world \<Rightarrow> (int list) result" where
  "get_expired_subscriptions ok now w =
     (if ok then
        (Inr (map fst (filter (\<lambda>(k, d). expiry_date d < now) (subscriptions w))), w)
      else (Inr [], log_error ''Error getting expired subscriptions'' w))"

definition remove_subscription :: "bool \<Rightarrow> bool \<Rightarrow> int \<Rightarrow> world \<Rightarrow> unit result" where
  "remove_subscription ok1 ok2 user_id w =
     (if \<not> ok1 then (Inr (), log_error ''Error removing subscription'' w)
      else
        let w1 = w\<lparr>subscriptions := delete_subscription user_id (subscriptions w)\<rparr>
        in if \<not> ok2 then (Inr (), log_error ''Error removing subscription'' w1)
           else (Inr (), update_user_doc user_id (\<lambda>d. d\<lparr>subscription_expiry := None\<rparr>) w1))"

section \<open>Telegram objects and the outcomes of external calls\<close>

record tg_user =
  tg_id :: int
  tg_first_name :: string
  tg_last_name :: "string option"
  tg_username :: "string option"
  is_bot :: bool

record tg_chat =
  chat_id :: int

record entity =
  entity_type :: string

record message =
  forward_date :: "datetime option"
  forward_from :: "tg_user option"
  forward_from_chat :: "tg_chat option"
  entities :: "entity list"
  caption_entities :: "entity list"
  msg_text :: "string option"
  caption :: "string option"

datatype msg_obj = TgMessage message | MockMessage
  \<comment> \<open>\<^verbatim>\<open>update.message\<close>: a Telegram message, or the \<^verbatim>\<open>MockMessage\<close> of \<^verbatim>\<open>admin_warn\<close>\<close>

record tg_update =
  update_id :: int
  upd_message :: "msg_obj option"
  effective_user :: "exn + tg_user option"
    \<comment> \<open>what reading \<^verbatim>\<open>update.effective_user\<close> gives: a value, or the exception it raises\<close>
  effective_chat :: "exn + tg_chat option"

record hv_env =
  find_user_ok :: bool
  delete_ok :: bool
  insert_warning_ok :: bool
  inc_warning_ok :: bool
  chat_send_ok :: bool
  restrict_ok :: bool
  ban_ok :: bool
  set_flag_ok :: bool
  admin_send_ok :: bool
  t_warning :: datetime
  t_last_warning :: datetime
  local_now :: int
    \<comment> \<open>\<^verbatim>\<open>datetime.now()\<close> as a POSIX timestamp, in seconds\<close>
  t_alert :: datetime

record sweep_env =
  sw_find_ok :: bool
  sw_ban_ok :: bool
  sw_delete_ok :: bool
  sw_clear_ok :: bool
  sw_flag_ok :: bool
  sw_notify_ok :: bool

text \<open>
  What the program gets from Python and from \<^verbatim>\<open>python-telegram-bot\<close> and does not decide
  itself. The file declares version 21.7 of the framework; \<open>ptb\<close> below is that version.
\<close>

record library =
  py_int :: "string \<Rightarrow> int option"
    \<comment> \<open>Python's \<^verbatim>\<open>int\<close> on a string; \<open>None\<close> is its ValueError\<close>
  mock_effective_user :: "exn + tg_user option"
    \<comment> \<open>\<^verbatim>\<open>effective_user\<close> of an \<^verbatim>\<open>Update\<close> built from an update id and a \<^verbatim>\<open>MockMessage\<close>\<close>
  mock_effective_chat :: "exn + tg_chat option"
  message_forward_attrs :: bool
    \<comment> \<open>whether a \<^verbatim>\<open>Message\<close> has the attributes \<^verbatim>\<open>forward_date\<close>, \<^verbatim>\<open>forward_from\<close> and
        \<^verbatim>\<open>forward_from_chat\<close>; reading a missing attribute raises AttributeError\<close>
  permissions_media_keyword :: bool
    \<comment> \<open>whether \<^verbatim>\<open>ChatPermissions\<close> takes the keyword \<^verbatim>\<open>can_send_media_messages\<close>; an
        unknown keyword raises TypeError\<close>

record aw_env =
  violation_env :: hv_env
  reply_ok :: bool
  error_reply_ok :: bool

definition MUTE_DURATION :: int where
  "MUTE_DURATION = 24"

section \<open>PremiumModerationBot\<close>

definition and_then :: "'a result \<Rightarrow> ('a \<Rightarrow> world \<Rightarrow> 'b result) \<Rightarrow> 'b result" where
  \<comment> \<open>sequencing: an exception of the first call leaves the function\<close>
  "and_then r f = (case r of (Inl e, w) \<Rightarrow> (Inl e, w) | (Inr x, w) \<Rightarrow> f x w)"

definition emit_call :: "call \<Rightarrow> bool \<Rightarrow> world \<Rightarrow> world" where
  \<comment> \<open>an outbound Telegram call, recorded with its outcome\<close>
  "emit_call c ok w = w\<lparr>outbox := outbox w @ [(c, ok)]\<rparr>"

definition notify_admin :: "int \<Rightarrow> bool \<Rightarrow> notice \<Rightarrow> world \<Rightarrow> unit result" where
  "notify_admin ADMIN_ID ok msg w =
     (let w1 = emit_call (SendMessage ADMIN_ID msg) ok w
      in if ok then (Inr (), w1) else (Inr (), log_error ''Failed to notify admin'' w1))"

definition delete_violating_message :: "hv_env \<Rightarrow> tg_update \<Rightarrow> world \<Rightarrow> world" where
  \<comment> \<open>\<^verbatim>\<open>try: await update.message.delete() except Exception\<close>; without a Telegram
      message the attribute access or the \<^verbatim>\<open>await\<close> raises, and is caught as well\<close>
  "delete_violating_message env upd w =
     (case upd_message upd of
        Some (TgMessage m) \<Rightarrow>
          if delete_ok env then emit_call DeleteMessage True w
          else log_error ''Failed to delete message'' (emit_call DeleteMessage False w)
      | _ \<Rightarrow> log_error ''Failed to delete message'' w)"

definition name_or_na :: "string option \<Rightarrow> string" where
  \<comment> \<open>\<^verbatim>\<open>user.username or 'N/A'\<close>\<close>
  "name_or_na u = (case u of None \<Rightarrow> ''N/A'' | Some n \<Rightarrow> if n = [] then ''N/A'' else n)"

definition warning_tier ::
  "hv_env \<Rightarrow> tg_user \<Rightarrow> tg_chat option \<Rightarrow> string \<Rightarrow> int \<Rightarrow> world \<Rightarrow> (string option) result" where
  \<comment> \<open>the branch \<^verbatim>\<open>new_warning_count == 1\<close>; the value is what \<^verbatim>\<open>action\<close> is bound to\<close>
  "warning_tier env user chat rsn n w =
     (case chat of
        None \<Rightarrow> (Inl AttributeError, w)
      | Some c \<Rightarrow>
          let w1 = emit_call (SendMessage (chat_id c) (WarningNotice n (tg_first_name user) rsn))
                     (chat_send_ok env) w
          in if chat_send_ok env then (Inr (Some ''WARNING''), w1) else (Inl TelegramError, w1))"

definition mute_tier ::
  "library \<Rightarrow> hv_env \<Rightarrow> tg_user \<Rightarrow> tg_chat option \<Rightarrow> string \<Rightarrow> int \<Rightarrow> world
     \<Rightarrow> (string option) result" where
  \<comment> \<open>the branch \<^verbatim>\<open>new_warning_count == 2\<close>, whose body is one \<^verbatim>\<open>try ... except Exception\<close>;
      the arguments of \<^verbatim>\<open>chat.restrict_member\<close> are built before the call is made, so a
      \<^verbatim>\<open>ChatPermissions\<close> that refuses its keywords ends the branch without any call\<close>
  "mute_tier lib env user chat rsn n w =
     (case chat of
        None \<Rightarrow> (Inr (Some ''MUTE_FAILED''), log_error ''Failed to mute user'' w)
      | Some c \<Rightarrow>
          if \<not> permissions_media_keyword lib
          then (Inr (Some ''MUTE_FAILED''), log_error ''Failed to mute user'' w)
          else
          let w1 = emit_call (RestrictMember (chat_id c) (tg_id user)
                     (local_now env + MUTE_DURATION * 3600)) (restrict_ok env) w
          in if \<not> restrict_ok env
             then (Inr (Some ''MUTE_FAILED''), log_error ''Failed to mute user'' w1)
             else
               let w2 = emit_call (SendMessage (chat_id c) (MuteNotice (tg_first_name user) rsn n))
                          (chat_send_ok env) w1
               in if \<not> chat_send_ok env
                  then (Inr (Some ''MUTE_FAILED''), log_error ''Failed to mute user'' w2)
                  else (case set_user_muted (set_flag_ok env) (tg_id user) True w2 of
                          (Inl e, w3) \<Rightarrow> (Inr (Some ''MUTE_FAILED''), log_error ''Failed to mute user'' w3)
                        | (Inr u, w3) \<Rightarrow> (Inr (Some ''MUTE''), w3)))"

definition ban_tier ::
  "hv_env \<Rightarrow> tg_user \<Rightarrow> tg_chat option \<Rightarrow> string \<Rightarrow> int \<Rightarrow> world \<Rightarrow> (string option) result" where
  \<comment> \<open>the branch \<^verbatim>\<open>new_warning_count >= 3\<close>, whose body is one \<^verbatim>\<open>try ... except Exception\<close>\<close>
  "ban_tier env user chat rsn n w =
     (case chat of
        None \<Rightarrow> (Inr (Some ''BAN_FAILED''), log_error ''Failed to ban user'' w)
      | Some c \<Rightarrow>
          let w1 = emit_call (BanMember (chat_id c) (tg_id user)) (ban_ok env) w
          in if \<not> ban_ok env
             then (Inr (Some ''BAN_FAILED''), log_error ''Failed to ban user'' w1)
             else
               let w2 = emit_call (SendMessage (chat_id c) (BanNotice (tg_first_name user) rsn n))
                          (chat_send_ok env) w1
               in if \<not> chat_send_ok env
                  then (Inr (Some ''BAN_FAILED''), log_error ''Failed to ban user'' w2)
                  else (case set_user_banned (set_flag_ok env) (tg_id user) True w2 of
                          (Inl e, w3) \<Rightarrow> (Inr (Some ''BAN_FAILED''), log_error ''Failed to ban user'' w3)
                        | (Inr u, w3) \<Rightarrow> (Inr (Some ''BAN''), w3)))"

definition dispatch_tier ::
  "library \<Rightarrow> hv_env \<Rightarrow> tg_user \<Rightarrow> tg_chat option \<Rightarrow> string \<Rightarrow> int \<Rightarrow> world
     \<Rightarrow> (string option) result" where
  \<comment> \<open>the \<^verbatim>\<open>if/elif/elif\<close> on \<^verbatim>\<open>new_warning_count\<close>; with no branch taken \<^verbatim>\<open>action\<close> stays unbound\<close>
  "dispatch_tier lib env user chat rsn n w =
     (if n = 1 then warning_tier env user chat rsn n w
      else if n = 2 then mute_tier lib env user chat rsn n w
      else if n \<ge> 3 then ban_tier env user chat rsn n w
      else (Inr None, w))"

definition record_violation ::
  "int \<Rightarrow> hv_env \<Rightarrow> tg_update \<Rightarrow> tg_user \<Rightarrow> string \<Rightarrow> bool \<Rightarrow> world \<Rightarrow> int result" where
  \<comment> \<open>\<open>handle_violation\<close> up to the tier: read the count, delete the message, record the
      warning, increment the stored count; the value is \<^verbatim>\<open>new_warning_count\<close>\<close>
  "record_violation ADMIN_ID env upd user rsn delete_message w =
     and_then (get_user (find_user_ok env) (tg_id user) w) (\<lambda>user_data w1.
       let current_warnings = (case user_data of None \<Rightarrow> 0 | Some d \<Rightarrow> warning_count d);
           new_warning_count = current_warnings + 1;
           w2 = (if delete_message then delete_violating_message env upd w1 else w1)
       in
         and_then (add_warning (insert_warning_ok env) (t_warning env) (tg_id user) rsn ADMIN_ID w2)
           (\<lambda>u1 w3.
         and_then (update_user_warning (inc_warning_ok env) (t_last_warning env) (tg_id user) True w3)
           (\<lambda>u2 w4. (Inr new_warning_count, w4))))"

definition handle_violation ::
  "library \<Rightarrow> int \<Rightarrow> hv_env \<Rightarrow> tg_update \<Rightarrow> string \<Rightarrow> bool \<Rightarrow> world \<Rightarrow> unit result" where
  "handle_violation lib ADMIN_ID env upd rsn delete_message w =
     (case effective_user upd of
        Inl e \<Rightarrow> (Inl e, w)
      | Inr user_opt \<Rightarrow>
     (case effective_chat upd of
        Inl e \<Rightarrow> (Inl e, w)
      | Inr chat \<Rightarrow>
     (case user_opt of
        None \<Rightarrow> (Inl AttributeError, w)
      | Some user \<Rightarrow>
          and_then (record_violation ADMIN_ID env upd user rsn delete_message w)
            (\<lambda>new_warning_count w4.
          and_then (dispatch_tier lib env user chat rsn new_warning_count w4)
            (\<lambda>action w5.
              case action of
                None \<Rightarrow> (Inl UnboundLocalError, w5)
              | Some a \<Rightarrow>
                  notify_admin ADMIN_ID (admin_send_ok env)
                    (ViolationAlert (tg_first_name user) (name_or_na (tg_username user))
                       (tg_id user) rsn new_warning_count a (t_alert env)) w5)))))"

definition lower_char :: "char \<Rightarrow> char" where
  \<comment> \<open>\<^verbatim>\<open>str.lower\<close> on one code point below 256\<close>
  "lower_char c =
     (let n = (of_char c :: nat)
      in if (65 \<le> n \<and> n \<le> 90) \<or> (192 \<le> n \<and> n \<le> 222 \<and> n \<noteq> 215)
         then char_of (n + 32) else c)"

definition lower :: "string \<Rightarrow> string" where
  "lower s = map lower_char s"

fun str_contains :: "string \<Rightarrow> string \<Rightarrow> bool" where
  \<comment> \<open>\<^verbatim>\<open>sub in s\<close> on strings\<close>
  "str_contains sub [] = (sub = [])"
| "str_contains sub (c # s) = (prefix sub (c # s) \<or> str_contains sub s)"

definition suspicious_terms :: "string list" where
  "suspicious_terms = [''leak'', ''pirate'', ''unauthorized'', ''share'', ''free'', ''download'']"

definition truthy :: "string option \<Rightarrow> bool" where
  \<comment> \<open>a string or \<^verbatim>\<open>None\<close> as a condition\<close>
  "truthy s = (case s of None \<Rightarrow> False | Some t \<Rightarrow> t \<noteq> [])"

definition text_or_caption :: "message \<Rightarrow> string" where
  \<comment> \<open>\<^verbatim>\<open>message.text or message.caption or ""\<close>\<close>
  "text_or_caption m =
     (if truthy (msg_text m) then the (msg_text m)
      else if truthy (caption m) then the (caption m) else [])"

definition entities_or_caption_entities :: "message \<Rightarrow> entity list" where
  \<comment> \<open>\<^verbatim>\<open>message.entities or message.caption_entities\<close>\<close>
  "entities_or_caption_entities m =
     (if entities m \<noteq> [] then entities m else caption_entities m)"

primrec has_link_entity :: "entity list \<Rightarrow> bool" where
  \<comment> \<open>the \<^verbatim>\<open>for\<close> loop over the entities, left at the first link\<close>
  "has_link_entity [] = False"
| "has_link_entity (e # es) =
     (if entity_type e \<in> set [''url'', ''text_link''] then True else has_link_entity es)"

definition present :: "'a option \<Rightarrow> bool" where
  \<comment> \<open>an attribute that is an object or \<^verbatim>\<open>None\<close>, as a condition\<close>
  "present x = (x \<noteq> None)"

definition nonempty :: "'a list \<Rightarrow> bool" where
  \<comment> \<open>a sequence as a condition\<close>
  "nonempty xs = (xs \<noteq> [])"

definition handle_message ::
  "library \<Rightarrow> int \<Rightarrow> hv_env \<Rightarrow> tg_update \<Rightarrow> world \<Rightarrow> unit result" where
  \<comment> \<open>the first check reads \<^verbatim>\<open>message.forward_date\<close>: where the library's \<^verbatim>\<open>Message\<close> has
      no such attribute, the read raises and the handler is left\<close>
  "handle_message lib ADMIN_ID env upd w =
     (case upd_message upd of
        None \<Rightarrow> (Inr (), w)
      | Some mo \<Rightarrow>
     (case effective_chat upd of
        Inl e \<Rightarrow> (Inl e, w)
      | Inr None \<Rightarrow> (Inr (), w)
      | Inr (Some c) \<Rightarrow>
     (case effective_user upd of
        Inl e \<Rightarrow> (Inl e, w)
      | Inr None \<Rightarrow> (Inl AttributeError, w)
      | Inr (Some user) \<Rightarrow>
          if tg_id user = ADMIN_ID then (Inr (), w)
          else
            (case mo of
               MockMessage \<Rightarrow> (Inl AttributeError, w)
             | TgMessage m \<Rightarrow>
                 if \<not> message_forward_attrs lib then (Inl AttributeError, w)
                 else if present (forward_date m) \<or> present (forward_from m)
                    \<or> present (forward_from_chat m)
                 then handle_violation lib ADMIN_ID env upd ''Forwarded message'' True w
                 else if (nonempty (entities m) \<or> nonempty (caption_entities m))
                         \<and> has_link_entity (entities_or_caption_entities m)
                 then handle_violation lib ADMIN_ID env upd ''External link'' True w
                 else if list_ex (\<lambda>term. str_contains term (lower (text_or_caption m)))
                           suspicious_terms
                 then handle_violation lib ADMIN_ID env upd ''Suspicious content'' True w
                 else (Inr (), w)))))"

definition send_reminder :: "bool \<Rightarrow> world \<Rightarrow> unit result" where
  "send_reminder ok w =
     (case group_id w of
        None \<Rightarrow> (Inr (), w)
      | Some g \<Rightarrow>
          if g = 0 then (Inr (), w)
          else
            let w1 = emit_call (SendMessage g ReminderNotice) ok w
            in if ok then (Inr (), log_info ''Periodic reminder sent'' w1)
               else (Inr (), log_error ''Failed to send reminder'' w1))"

definition expire_user :: "int \<Rightarrow> sweep_env \<Rightarrow> int \<Rightarrow> int \<Rightarrow> world \<Rightarrow> world" where
  \<comment> \<open>one pass of the loop of \<^verbatim>\<open>check_expired_subscriptions\<close>: its \<^verbatim>\<open>try\<close> body, with
      \<^verbatim>\<open>except Exception\<close> logging and going on to the next user\<close>
  "expire_user ADMIN_ID env gid user_id w =
     (case get_user (sw_find_ok env) user_id w of
        (Inl e, w1) \<Rightarrow> log_error ''Failed to remove expired user'' w1
      | (Inr None, w1) \<Rightarrow> w1
      | (Inr (Some user_data), w1) \<Rightarrow>
          let w2 = emit_call (BanMember gid user_id) (sw_ban_ok env) w1
          in if \<not> sw_ban_ok env then log_error ''Failed to remove expired user'' w2
             else
               (case and_then (remove_subscription (sw_delete_ok env) (sw_clear_ok env) user_id w2)
                       (\<lambda>u1 w3.
                     and_then (set_user_banned (sw_flag_ok env) user_id True w3)
                       (\<lambda>u2 w4.
                     notify_admin ADMIN_ID (sw_notify_ok env)
                       (ExpiredAlert user_id (first_name user_data)) w4)) of
                  (Inl e, w5) \<Rightarrow> log_error ''Failed to remove expired user'' w5
                | (Inr u, w5) \<Rightarrow> log_info ''Removed expired subscription user'' w5))"

primrec expire_users ::
  "int \<Rightarrow> (int \<Rightarrow> sweep_env) \<Rightarrow> int \<Rightarrow> int list \<Rightarrow> world \<Rightarrow> world" where
  \<comment> \<open>\<^verbatim>\<open>for user_id in expired_users\<close>; the outcomes of the external calls are given per user\<close>
  "expire_users ADMIN_ID envs gid [] w = w"
| "expire_users ADMIN_ID envs gid (user_id # rest) w =
     expire_users ADMIN_ID envs gid rest (expire_user ADMIN_ID (envs user_id) gid user_id w)"

definition check_expired_subscriptions ::
  "int \<Rightarrow> bool \<Rightarrow> datetime \<Rightarrow> (int \<Rightarrow> sweep_env) \<Rightarrow> world \<Rightarrow> unit result" where
  "check_expired_subscriptions ADMIN_ID list_ok now envs w =
     (case group_id w of
        None \<Rightarrow> (Inr (), w)
      | Some g \<Rightarrow>
          if g = 0 then (Inr (), w)
          else
            and_then (get_expired_subscriptions list_ok now w) (\<lambda>expired_users w1.
              (Inr (), expire_users ADMIN_ID envs g expired_users w1)))"

definition reply_text :: "bool \<Rightarrow> tg_update \<Rightarrow> notice \<Rightarrow> world \<Rightarrow> unit result" where
  \<comment> \<open>\<^verbatim>\<open>await update.message.reply_text(...)\<close>\<close>
  "reply_text ok upd msg w =
     (case upd_message upd of
        Some (TgMessage m) \<Rightarrow>
          (if ok then Inr () else Inl TelegramError, emit_call (ReplyText msg) ok w)
      | _ \<Rightarrow> (Inl AttributeError, w))"

fun join_space :: "string list \<Rightarrow> string" where
  \<comment> \<open>\<^verbatim>\<open>" ".join(xs)\<close>\<close>
  "join_space [] = []"
| "join_space [x] = x"
| "join_space (x # y # ys) = x @ '' '' @ join_space (y # ys)"

definition mock_update :: "library \<Rightarrow> tg_update \<Rightarrow> tg_update" where
  \<comment> \<open>\<^verbatim>\<open>Update(update_id=update.update_id, message=MockMessage())\<close>\<close>
  "mock_update lib upd =
     \<lparr>update_id = update_id upd, upd_message = Some MockMessage,
      effective_user = mock_effective_user lib, effective_chat = mock_effective_chat lib\<rparr>"

definition admin_warn ::
  "int \<Rightarrow> library \<Rightarrow> aw_env \<Rightarrow> tg_update \<Rightarrow> string list option \<Rightarrow> world \<Rightarrow> unit result" where
  "admin_warn ADMIN_ID lib env upd args w =
     (case effective_user upd of
        Inl e \<Rightarrow> (Inl e, w)
      | Inr None \<Rightarrow> (Inl AttributeError, w)
      | Inr (Some admin) \<Rightarrow>
          if tg_id admin \<noteq> ADMIN_ID then (Inr (), w)
          else
            (case args of
               None \<Rightarrow> reply_text (reply_ok env) upd UsageReply w
             | Some as \<Rightarrow>
                 if length as < 2 then reply_text (reply_ok env) upd UsageReply w
                 else
                   (case py_int lib (hd as) of
                      None \<Rightarrow> reply_text (error_reply_ok env) upd InvalidUserIdReply w
                    | Some user_id \<Rightarrow>
                        (case and_then
                                (handle_violation lib ADMIN_ID (violation_env env) (mock_update lib upd)
                                   (''Admin manual: '' @ join_space (tl as)) False w)
                                (\<lambda>u w1. reply_text (reply_ok env) upd (WarningIssuedReply user_id) w1) of
                           (Inr u, w2) \<Rightarrow> (Inr (), w2)
                         | (Inl ValueError, w2) \<Rightarrow>
                             reply_text (error_reply_ok env) upd InvalidUserIdReply w2
                         | (Inl e, w2) \<Rightarrow>
                             reply_text (error_reply_ok env) upd ErrorIssuingReply
                               (log_error ''Error in admin_warn'' w2)))))"

section \<open>Operations of the store, as a caller can issue them\<close>

datatype store_op =
  GetUser int
  | CreateUser datetime int string string string
  | UpdateUserWarning datetime int bool
  | ResetUserWarnings int
  | SetUserMuted int bool
  | SetUserBanned int bool
  | AddWarning datetime int string int
  | GetUserWarnings int int
  | AddSubscription datetime datetime int int
  | GetExpiredSubscriptions datetime
  | RemoveSubscription int

fun run_op :: "bool \<Rightarrow> bool \<Rightarrow> store_op \<Rightarrow> world \<Rightarrow> exn option \<times> world" where
  \<comment> \<open>one call of a DatabaseManager method: the exception it raises, if any, and the state
      it leaves; \<open>ok1\<close> and \<open>ok2\<close> are the outcomes of its first and second driver call\<close>
  "run_op ok1 ok2 (GetUser u) w =
     (case get_user ok1 u w of (r, w') \<Rightarrow> (case r of Inl e \<Rightarrow> Some e | Inr v \<Rightarrow> None, w'))"
| "run_op ok1 ok2 (CreateUser now u un fn ln) w =
     (case create_user ok1 now u un fn ln w of
        (r, w') \<Rightarrow> (case r of Inl e \<Rightarrow> Some e | Inr v \<Rightarrow> None, w'))"
| "run_op ok1 ok2 (UpdateUserWarning now u inc) w =
     (case update_user_warning ok1 now u inc w of
        (r, w') \<Rightarrow> (case r of Inl e \<Rightarrow> Some e | Inr v \<Rightarrow> None, w'))"
| "run_op ok1 ok2 (ResetUserWarnings u) w =
     (case reset_user_warnings ok1 u w of
        (r, w') \<Rightarrow> (case r of Inl e \<Rightarrow> Some e | Inr v \<Rightarrow> None, w'))"
| "run_op ok1 ok2 (SetUserMuted u b) w =
     (case set_user_muted ok1 u b w of
        (r, w') \<Rightarrow> (case r of Inl e \<Rightarrow> Some e | Inr v \<Rightarrow> None, w'))"
| "run_op ok1 ok2 (SetUserBanned u b) w =
     (case set_user_banned ok1 u b w of
        (r, w') \<Rightarrow> (case r of Inl e \<Rightarrow> Some e | Inr v \<Rightarrow> None, w'))"
| "run_op ok1 ok2 (AddWarning now u rsn adm) w =
     (case add_warning ok1 now u rsn adm w of
        (r, w') \<Rightarrow> (case r of Inl e \<Rightarrow> Some e | Inr v \<Rightarrow> None, w'))"
| "run_op ok1 ok2 (GetUserWarnings u n) w =
     (case get_user_warnings ok1 u n w of
        (r, w') \<Rightarrow> (case r of Inl e \<Rightarrow> Some e | Inr v \<Rightarrow> None, w'))"
| "run_op ok1 ok2 (AddSubscription now now' u days) w =
     (case add_subscription ok1 ok2 now now' u days w of
        (r, w') \<Rightarrow> (case r of Inl e \<Rightarrow> Some e | Inr v \<Rightarrow> None, w'))"
| "run_op ok1 ok2 (GetExpiredSubscriptions now) w =
     (case get_expired_subscriptions ok1 now w of
        (r, w') \<Rightarrow> (case r of Inl e \<Rightarrow> Some e | Inr v \<Rightarrow> None, w'))"
| "run_op ok1 ok2 (RemoveSubscription u) w =
     (case remove_subscription ok1 ok2 u w of
        (r, w') \<Rightarrow> (case r of Inl e \<Rightarrow> Some e | Inr v \<Rightarrow> None, w'))"

section \<open>Observing a run\<close>

datatype tier = WARNING | MUTE | BAN

definition tier_of_action :: "string \<Rightarrow> tier option" where
  \<comment> \<open>the tier that binds \<^verbatim>\<open>action\<close> to a value\<close>
  "tier_of_action a =
     (if a = ''WARNING'' then Some WARNING
      else if a = ''MUTE'' \<or> a = ''MUTE_FAILED'' then Some MUTE
      else if a = ''BAN'' \<or> a = ''BAN_FAILED'' then Some BAN
      else None)"

fun tier_of_call :: "call \<Rightarrow> tier option" where
  \<comment> \<open>the sanction tier an outbound call shows to have run: the tier's own calls, and the
      alert to the administrator by the action it reports; deletions and replies show none\<close>
  "tier_of_call (SendMessage c (WarningNotice n f r)) = Some WARNING"
| "tier_of_call (SendMessage c (MuteNotice f r n)) = Some MUTE"
| "tier_of_call (SendMessage c (BanNotice f r n)) = Some BAN"
| "tier_of_call (SendMessage c (ViolationAlert f u i r n a t)) = tier_of_action a"
| "tier_of_call (RestrictMember c u t) = Some MUTE"
| "tier_of_call (BanMember c u) = Some BAN"
| "tier_of_call other = None"

definition new_calls :: "world \<Rightarrow> world \<Rightarrow> (call \<times> bool) list" where
  \<comment> \<open>the calls made between an earlier and a later state\<close>
  "new_calls w w' = drop (length (outbox w)) (outbox w')"

definition tiers_run :: "world \<Rightarrow> world \<Rightarrow> tier list" where
  \<comment> \<open>the tiers of the calls made between two states, each tier once\<close>
  "tiers_run w w' = remdups (List.map_filter (\<lambda>c. tier_of_call (fst c)) (new_calls w w'))"

fun subject :: "call \<Rightarrow> int option" where
  \<comment> \<open>the user a call of the subscription sweep is about\<close>
  "subject (BanMember c u) = Some u"
| "subject (SendMessage c (ExpiredAlert u n)) = Some u"
| "subject other = None"

definition calls_about :: "int \<Rightarrow> (call \<times> bool) list \<Rightarrow> (call \<times> bool) list" where
  "calls_about u cs = filter (\<lambda>c. subject (fst c) = Some u) cs"

definition count_of :: "world \<Rightarrow> int \<Rightarrow> int option" where
  \<comment> \<open>the stored \<^verbatim>\<open>warning_count\<close> of a user, if the user has a record\<close>
  "count_of w u = map_option warning_count (users w u)"

definition read_count :: "hv_env \<Rightarrow> world \<Rightarrow> int \<Rightarrow> int" where
  \<comment> \<open>the count \<open>handle_violation\<close> starts from: the stored one, and 0 with no record read\<close>
  "read_count env w u =
     (case fst (get_user (find_user_ok env) u w) of
        Inr (Some d) \<Rightarrow> warning_count d
      | _ \<Rightarrow> 0)"

primrec run_violations ::
  "library \<Rightarrow> int \<Rightarrow> (hv_env \<times> tg_update \<times> string \<times> bool) list \<Rightarrow> world \<Rightarrow> world" where
  \<comment> \<open>violations handled one after the other; the dispatcher logs what a handler raises
      and goes on\<close>
  "run_violations lib ADMIN_ID [] w = w"
| "run_violations lib ADMIN_ID (v # vs) w =
     run_violations lib ADMIN_ID vs
       (case v of (env, upd, rsn, del) \<Rightarrow> snd (handle_violation lib ADMIN_ID env upd rsn del w))"

definition is_decrement :: "store_op \<Rightarrow> bool" where
  "is_decrement op = (case op of UpdateUserWarning now u inc \<Rightarrow> \<not> inc | _ \<Rightarrow> False)"

definition is_reset :: "store_op \<Rightarrow> bool" where
  "is_reset op = (case op of ResetUserWarnings u \<Rightarrow> True | _ \<Rightarrow> False)"

section \<open>The declared runtime\<close>

definition py_isspace :: "char \<Rightarrow> bool" where
  \<comment> \<open>the code points below 256 that Python counts as whitespace\<close>
  "py_isspace c =
     (let n = (of_char c :: nat)
      in (9 \<le> n \<and> n \<le> 13) \<or> (28 \<le> n \<and> n \<le> 32) \<or> n = 133 \<or> n = 160)"

definition strip :: "string \<Rightarrow> string" where
  "strip s = rev (dropWhile py_isspace (rev (dropWhile py_isspace s)))"

definition digit_value :: "char \<Rightarrow> nat option" where
  "digit_value c =
     (let n = (of_char c :: nat) in if 48 \<le> n \<and> n \<le> 57 then Some (n - 48) else None)"

fun digits_from :: "nat \<Rightarrow> string \<Rightarrow> nat option" where
  \<comment> \<open>the rest of a decimal literal after a digit: digits, each of which a single
      underscore may precede\<close>
  "digits_from acc [] = Some acc"
| "digits_from acc [c] =
     (case digit_value c of None \<Rightarrow> None | Some v \<Rightarrow> Some (10 * acc + v))"
| "digits_from acc (c # d # ds) =
     (if c = CHR ''_''
      then (case digit_value d of None \<Rightarrow> None | Some v \<Rightarrow> digits_from (10 * acc + v) ds)
      else (case digit_value c of None \<Rightarrow> None | Some v \<Rightarrow> digits_from (10 * acc + v) (d # ds)))"

definition decimal_literal :: "string \<Rightarrow> nat option" where
  "decimal_literal s =
     (case s of
        [] \<Rightarrow> None
      | c # cs \<Rightarrow> (case digit_value c of None \<Rightarrow> None | Some v \<Rightarrow> digits_from v cs))"

definition python_int :: "string \<Rightarrow> int option" where
  \<comment> \<open>\<^verbatim>\<open>int(s)\<close> on a string of code points below 256: surrounding whitespace, a sign,
      decimal digits with single underscores between them; \<open>None\<close> is the ValueError.
      (A Telegram message has at most 4096 characters, fewer than the digits at which
      \<^verbatim>\<open>int\<close> starts to refuse a string for its length.)\<close>
  "python_int s =
     (case strip s of
        [] \<Rightarrow> None
      | c # cs \<Rightarrow>
          if c = CHR ''-'' then map_option (\<lambda>n. - int n) (decimal_literal cs)
          else if c = CHR ''+'' then map_option int (decimal_literal cs)
          else map_option int (decimal_literal (c # cs)))"

definition ptb :: library where
  \<comment> \<open>\<^verbatim>\<open>python-telegram-bot\<close> 21.7, the version the file declares: \<^verbatim>\<open>effective_user\<close> and
      \<^verbatim>\<open>effective_chat\<close> read \<^verbatim>\<open>from_user\<close> and \<^verbatim>\<open>chat\<close> of the update's message, which a
      \<^verbatim>\<open>MockMessage\<close> does not have; \<^verbatim>\<open>Message\<close> has no \<^verbatim>\<open>forward_date\<close>, \<^verbatim>\<open>forward_from\<close>
      or \<^verbatim>\<open>forward_from_chat\<close>; \<^verbatim>\<open>ChatPermissions\<close> has no keyword
      \<^verbatim>\<open>can_send_media_messages\<close>\<close>
  "ptb =
     \<lparr>py_int = python_int, mock_effective_user = Inl AttributeError,
      mock_effective_chat = Inl AttributeError, message_forward_attrs = False,
      permissions_media_keyword = False\<rparr>"

definition ptb_with_forward_attrs :: library where
  \<comment> \<open>a framework whose \<^verbatim>\<open>Message\<close> still has the forward attributes\<close>
  "ptb_with_forward_attrs = ptb\<lparr>message_forward_attrs := True\<rparr>"

section \<open>Example states and inputs\<close>

definition empty_world :: world where
  "empty_world =
     \<lparr>users = Map.empty, warnings = [], subscriptions = [], logs = [], outbox = [],
      group_id = None\<rparr>"

definition mallory_doc :: user_doc where
  "mallory_doc =
     \<lparr>username = ''mallory'', first_name = ''Mallory'', last_name = [],
      join_date = 63000000000000000, warning_count = 0, is_muted = False, is_banned = False,
      subscription_expiry = None, last_reminder = None, last_warning = None\<rparr>"

definition group_world :: world where
  \<comment> \<open>the bot sits in group -100 and user 7 has joined\<close>
  "group_world = empty_world\<lparr>users := [7 \<mapsto> mallory_doc], group_id := Some (- 100)\<rparr>"

definition mallory :: tg_user where
  "mallory =
     \<lparr>tg_id = 7, tg_first_name = ''Mallory'', tg_last_name = None,
      tg_username = Some ''mallory'', is_bot = False\<rparr>"

definition the_admin :: tg_user where
  "the_admin =
     \<lparr>tg_id = 99, tg_first_name = ''Johan'', tg_last_name = None,
      tg_username = Some ''johan'', is_bot = False\<rparr>"

definition plain_message :: message where
  "plain_message =
     \<lparr>forward_date = None, forward_from = None, forward_from_chat = None,
      entities = [], caption_entities = [], msg_text = Some ''hello'', caption = None\<rparr>"

definition update_from :: "tg_user \<Rightarrow> message \<Rightarrow> tg_update" where
  \<comment> \<open>an update Telegram delivers for a message of a user in group -100\<close>
  "update_from u m =
     \<lparr>update_id = 1, upd_message = Some (TgMessage m), effective_user = Inr (Some u),
      effective_chat = Inr (Some \<lparr>chat_id = - 100\<rparr>)\<rparr>"

definition all_ok :: hv_env where
  "all_ok =
     \<lparr>find_user_ok = True, delete_ok = True, insert_warning_ok = True, inc_warning_ok = True,
      chat_send_ok = True, restrict_ok = True, ban_ok = True, set_flag_ok = True,
      admin_send_ok = True, t_warning = 63000000000000001, t_last_warning = 63000000000000002,
      local_now = 1700000000, t_alert = 63000000000000003\<rparr>"

definition forwarded_message :: message where
  "forwarded_message = plain_message\<lparr>forward_date := Some 63000000000000000\<rparr>"

definition link_message :: message where
  "link_message =
     plain_message\<lparr>entities := [\<lparr>entity_type = ''url''\<rparr>], msg_text := Some ''see example.org''\<rparr>"

definition violate :: "world \<Rightarrow> world" where
  \<comment> \<open>user 7 forwards a message into the group and every external call succeeds\<close>
  "violate w =
     snd (handle_violation ptb 99 all_ok (update_from mallory forwarded_message)
            ''Forwarded message'' True w)"

definition repeat_offender_world :: world where
  \<comment> \<open>user 7 with four warnings on record\<close>
  "repeat_offender_world =
     empty_world\<lparr>users := [7 \<mapsto> mallory_doc\<lparr>warning_count := 4\<rparr>], group_id := Some (- 100)\<rparr>"

definition mute_fails :: hv_env where
  \<comment> \<open>Telegram refuses the restriction\<close>
  "mute_fails = all_ok\<lparr>restrict_ok := False\<rparr>"

definition notice_fails :: hv_env where
  \<comment> \<open>Telegram refuses the message to the group\<close>
  "notice_fails = all_ok\<lparr>chat_send_ok := False\<rparr>"

definition ban_refused :: hv_env where
  \<comment> \<open>Telegram refuses the ban\<close>
  "ban_refused = all_ok\<lparr>ban_ok := False\<rparr>"

definition read_fails :: hv_env where
  \<comment> \<open>the store fails on the read of the user's record\<close>
  "read_fails = all_ok\<lparr>find_user_ok := False\<rparr>"

definition unregistered_history :: "(hv_env \<times> tg_update \<times> string \<times> bool) list" where
  \<comment> \<open>two violations of user 7, handled with every external call succeeding\<close>
  "unregistered_history =
     [(all_ok, update_from mallory forwarded_message, ''Forwarded message'', True),
      (all_ok, update_from mallory link_message, ''External link'', True)]"

definition sweep_ok :: sweep_env where
  "sweep_ok =
     \<lparr>sw_find_ok = True, sw_ban_ok = True, sw_delete_ok = True, sw_clear_ok = True,
      sw_flag_ok = True, sw_notify_ok = True\<rparr>"

definition ptb_lenient :: library where
  \<comment> \<open>a library whose \<^verbatim>\<open>effective_user\<close> and \<^verbatim>\<open>effective_chat\<close> give \<^verbatim>\<open>None\<close> for a
      message without sender and chat, rather than raising\<close>
  "ptb_lenient = ptb\<lparr>mock_effective_user := Inr None, mock_effective_chat := Inr None\<rparr>"

definition warn_command :: tg_update where
  \<comment> \<open>the administrator sends \<^verbatim>\<open>/warn 7 spam links\<close>\<close>
  "warn_command =
     update_from the_admin (plain_message\<lparr>msg_text := Some ''/warn 7 spam links''\<rparr>)"

definition warn_env :: aw_env where
  "warn_env = \<lparr>violation_env = all_ok, reply_ok = True, error_reply_ok = True\<rparr>"

definition lapsed :: sub_doc where
  "lapsed = \<lparr>expiry_date = 62000000000000000, updated_at = 61000000000000000\<rparr>"

definition lapsed_world :: world where
  \<comment> \<open>user 8 has a subscription that has run out, and no User record\<close>
  "lapsed_world = empty_world\<lparr>subscriptions := [(8, lapsed)], group_id := Some (- 100)\<rparr>"

definition nina_doc :: user_doc where
  "nina_doc = mallory_doc\<lparr>username := ''nina'', first_name := ''Nina''\<rparr>"

definition sweep_world :: world where
  \<comment> \<open>users 7 and 9 have records, user 8 has none; all three subscriptions have run out\<close>
  "sweep_world =
     empty_world\<lparr>users := [7 \<mapsto> mallory_doc, 9 \<mapsto> nina_doc],
                 subscriptions := [(7, lapsed), (8, lapsed), (9, lapsed)],
                 group_id := Some (- 100)\<rparr>"

definition ban_fails_for_7 :: "int \<Rightarrow> sweep_env" where
  \<comment> \<open>Telegram refuses to remove user 7; every other call succeeds\<close>
  "ban_fails_for_7 u = (if u = 7 then sweep_ok\<lparr>sw_ban_ok := False\<rparr> else sweep_ok)"

definition t0 :: datetime where
  "t0 = 63000000000000000"

definition subscribed_world :: world where
  \<comment> \<open>at \<open>t0\<close>, user 7 is given 30 days\<close>
  "subscribed_world = snd (add_subscription True True t0 t0 7 30 group_world)"

definition shout_message :: message where
  "shout_message = plain_message\<lparr>msg_text := Some ''Get it FREE here''\<rparr>"

section \<open>Basic facts\<close>

lemmas store_defs = get_user_def create_user_def update_user_warning_def reset_user_warnings_def
        set_user_muted_def set_user_banned_def add_warning_def get_user_warnings_def
        add_subscription_def get_expired_subscriptions_def remove_subscription_def

lemmas tier_defs = dispatch_tier_def warning_tier_def mute_tier_def ban_tier_def

lemma map_filter_append: "List.map_filter f (xs @ ys) = List.map_filter f xs @ List.map_filter f ys"
  by (simp add: List.map_filter_def)

lemma new_calls_append: "outbox w' = outbox w @ xs \<Longrightarrow> new_calls w w' = xs"
  by (simp add: new_calls_def)

lemma outbox_simps:
  "outbox (log_error m w) = outbox w" "outbox (log_info m w) = outbox w"
  "outbox (emit_call c ok w) = outbox w @ [(c, ok)]"
  "outbox (update_user_doc u f w) = outbox w"
  by (simp_all add: log_error_def log_info_def emit_call_def update_user_doc_def split: option.splits)

lemma warnings_simps:
  "warnings (log_error m w) = warnings w" "warnings (log_info m w) = warnings w"
  "warnings (emit_call c ok w) = warnings w"
  "warnings (update_user_doc u f w) = warnings w"
  by (simp_all add: log_error_def log_info_def emit_call_def update_user_doc_def split: option.splits)

lemma users_simps:
  "users (log_error m w) = users w" "users (log_info m w) = users w"
  "users (emit_call c ok w) = users w"
  by (simp_all add: log_error_def log_info_def emit_call_def)

lemma count_of_simps:
  "count_of (log_error m w) v = count_of w v" "count_of (log_info m w) v = count_of w v"
  "count_of (emit_call c ok w) v = count_of w v"
  "count_of (w\<lparr>subscriptions := s\<rparr>) v = count_of w v"
  "count_of (w\<lparr>warnings := ws\<rparr>) v = count_of w v"
  "count_of (update_user_doc u f w) v =
     (if v = u then map_option (\<lambda>d. warning_count (f d)) (users w u) else count_of w v)"
  by (simp_all add: count_of_def log_error_def log_info_def emit_call_def update_user_doc_def
      split: option.splits)

lemma update_absent: "users w u = None \<Longrightarrow> update_user_doc u f w = w"
  by (simp add: update_user_doc_def)

lemma record_violation_value:
  "fst (record_violation A env upd user rsn del w) = Inr (read_count env w (tg_id user) + 1)"
  by (simp add: record_violation_def and_then_def get_user_def add_warning_def
      update_user_warning_def read_count_def Let_def split: option.splits)

lemma record_violation_outbox:
  "\<exists>ds. outbox (snd (record_violation A env upd user rsn del w)) = outbox w @ ds
        \<and> List.map_filter (\<lambda>c. tier_of_call (fst c)) ds = []"
  by (simp add: record_violation_def and_then_def get_user_def add_warning_def
      update_user_warning_def delete_violating_message_def Let_def outbox_simps
      split: option.splits msg_obj.splits)

lemma record_violation_warnings:
  "warnings (snd (record_violation A env upd user rsn del w)) =
     (if insert_warning_ok env
      then warnings w @ [\<lparr>w_user_id = tg_id user, reason = rsn, admin_id = A,
                          timestamp = t_warning env, resolved = False\<rparr>]
      else warnings w)"
  by (simp add: record_violation_def and_then_def get_user_def add_warning_def
      update_user_warning_def delete_violating_message_def Let_def warnings_simps
      split: option.splits msg_obj.splits)

lemma record_violation_count:
  "count_of (snd (record_violation A env upd user rsn del w)) v =
     (if v = tg_id user \<and> inc_warning_ok env then map_option (\<lambda>c. c + 1) (count_of w v)
      else count_of w v)"
  by (simp add: record_violation_def and_then_def get_user_def add_warning_def
      update_user_warning_def delete_violating_message_def Let_def count_of_simps
      split: option.splits msg_obj.splits)
     (simp_all add: count_of_def log_error_def emit_call_def  option.map_comp comp_def)

lemma record_violation_absent:
  "users w (tg_id user) = None \<Longrightarrow> users (snd (record_violation A env upd user rsn del w)) = users w"
  by (simp add: record_violation_def and_then_def get_user_def add_warning_def
      update_user_warning_def delete_violating_message_def Let_def users_simps update_absent
      split: option.splits msg_obj.splits)

lemma tier_of_action_simps:
  "tier_of_action ''WARNING'' = Some WARNING"
  "tier_of_action ''MUTE'' = Some MUTE" "tier_of_action ''MUTE_FAILED'' = Some MUTE"
  "tier_of_action ''BAN'' = Some BAN" "tier_of_action ''BAN_FAILED'' = Some BAN"
  by (simp_all add: tier_of_action_def)

lemma dispatch_tier_warnings:
  "warnings (snd (dispatch_tier lib env user chat rsn n w)) = warnings w"
  by (simp add: tier_defs set_user_muted_def set_user_banned_def Let_def warnings_simps
      split: option.splits)

lemma dispatch_tier_count:
  "count_of (snd (dispatch_tier lib env user chat rsn n w)) v = count_of w v"
  by (auto simp: tier_defs set_user_muted_def set_user_banned_def Let_def count_of_def
      users_simps update_user_doc_def split: option.splits)

lemma dispatch_tier_absent:
  "users w (tg_id user) = None \<Longrightarrow> users (snd (dispatch_tier lib env user chat rsn n w)) = users w"
  by (simp add: tier_defs set_user_muted_def set_user_banned_def Let_def users_simps update_absent
      split: option.splits)

lemma notify_admin_outbox:
  "outbox (snd (notify_admin A ok msg w)) = outbox w @ [(SendMessage A msg, ok)]"
  by (simp add: notify_admin_def Let_def outbox_simps)

lemma notify_admin_frame:
  "warnings (snd (notify_admin A ok msg w)) = warnings w"
  "users (snd (notify_admin A ok msg w)) = users w"
  "count_of (snd (notify_admin A ok msg w)) v = count_of w v"
  "subscriptions (snd (notify_admin A ok msg w)) = subscriptions w"
  by (simp_all add: notify_admin_def Let_def count_of_def log_error_def emit_call_def)

lemma hv_unfold:
  assumes "effective_user upd = Inr (Some user)" and "effective_chat upd = Inr chat"
  shows "handle_violation lib A env upd rsn del w =
     (let n = read_count env w (tg_id user) + 1;
          r = dispatch_tier lib env user chat rsn n (snd (record_violation A env upd user rsn del w))
      in case fst r of
           Inl e \<Rightarrow> (Inl e, snd r)
         | Inr None \<Rightarrow> (Inl UnboundLocalError, snd r)
         | Inr (Some a) \<Rightarrow>
             notify_admin A (admin_send_ok env)
               (ViolationAlert (tg_first_name user) (name_or_na (tg_username user))
                  (tg_id user) rsn n a (t_alert env)) (snd r))"
proof -
  obtain w4 where rv: "record_violation A env upd user rsn del w = (Inr (read_count env w (tg_id user) + 1), w4)"
    using record_violation_value[of A env upd user rsn del w]
    by (cases "record_violation A env upd user rsn del w") simp
  show ?thesis
    by (simp add: handle_violation_def assms rv and_then_def Let_def split: prod.splits sum.splits option.splits)
qed

lemma tier_and_alert_calls:
  fixes lib env user c rsn n w4 A f u i t
  defines "r \<equiv> dispatch_tier lib env user (Some c) rsn n w4"
  defines "h \<equiv> (case fst r of
                    Inl e \<Rightarrow> (Inl e, snd r)
                  | Inr None \<Rightarrow> (Inl UnboundLocalError, snd r)
                  | Inr (Some a) \<Rightarrow>
                      notify_admin A (admin_send_ok env) (ViolationAlert f u i rsn n a t) (snd r))"
  shows "\<exists>xs. outbox (snd h) = outbox w4 @ xs
        \<and> remdups (List.map_filter (\<lambda>c. tier_of_call (fst c)) xs) =
            (if n = 1 then [WARNING] else if n = 2 then [MUTE] else if 3 \<le> n then [BAN] else [])"
proof -
  consider "n = 1" | "n = 2" | "3 \<le> n" | "n < 1" by linarith
  then show ?thesis
  proof cases
    case 1
    then show ?thesis
      unfolding h_def r_def
      by (simp add: dispatch_tier_def warning_tier_def Let_def notify_admin_outbox outbox_simps
          tier_of_action_simps)
  next
    case 2
    then show ?thesis
      unfolding h_def r_def
      by (simp add: dispatch_tier_def mute_tier_def set_user_muted_def Let_def
          notify_admin_outbox outbox_simps tier_of_action_simps)
  next
    case 3
    then have "n \<noteq> 1" "n \<noteq> 2" by simp_all
    then show ?thesis
      unfolding h_def r_def using 3
      by (simp add: dispatch_tier_def ban_tier_def set_user_banned_def Let_def
          notify_admin_outbox outbox_simps tier_of_action_simps)
  next
    case 4
    then have "n \<noteq> 1" "n \<noteq> 2" "\<not> 3 \<le> n" by simp_all
    then show ?thesis
      unfolding h_def r_def
      by (simp add: dispatch_tier_def)
  qed
qed

lemma hv_tiers:
  assumes "effective_user upd = Inr (Some user)" and "effective_chat upd = Inr (Some c)"
  shows "tiers_run w (snd (handle_violation lib A env upd rsn del w)) =
     (let n = read_count env w (tg_id user) + 1
      in if n = 1 then [WARNING] else if n = 2 then [MUTE] else if 3 \<le> n then [BAN] else [])"
proof -
  define n where "n = read_count env w (tg_id user) + 1"
  define w4 where "w4 = snd (record_violation A env upd user rsn del w)"
  obtain ds where ds: "outbox w4 = outbox w @ ds" "List.map_filter (\<lambda>c. tier_of_call (fst c)) ds = []"
    using record_violation_outbox[of A env upd user rsn del w] unfolding w4_def by blast
  obtain xs where xs: "outbox (snd (handle_violation lib A env upd rsn del w)) = outbox w4 @ xs"
     "remdups (List.map_filter (\<lambda>c. tier_of_call (fst c)) xs) =
            (if n = 1 then [WARNING] else if n = 2 then [MUTE] else if 3 \<le> n then [BAN] else [])"
    unfolding hv_unfold[OF assms] n_def[symmetric] w4_def[symmetric] Let_def
    using tier_and_alert_calls by blast
  have "new_calls w (snd (handle_violation lib A env upd rsn del w)) = ds @ xs"
    by (rule new_calls_append) (simp add: xs ds)
  then show ?thesis
    using ds(2) xs(2) by (simp add: tiers_run_def n_def Let_def map_filter_append)
qed

lemma hv_warnings:
  assumes "effective_user upd = Inr (Some user)" and "effective_chat upd = Inr chat"
  shows "warnings (snd (handle_violation lib A env upd rsn del w)) =
     (if insert_warning_ok env
      then warnings w @ [\<lparr>w_user_id = tg_id user, reason = rsn, admin_id = A,
                          timestamp = t_warning env, resolved = False\<rparr>]
      else warnings w)"
  unfolding hv_unfold[OF assms] Let_def
  by (simp add: notify_admin_frame dispatch_tier_warnings record_violation_warnings
      split: sum.splits option.splits)

lemma hv_count:
  assumes "effective_user upd = Inr (Some user)" and "effective_chat upd = Inr chat"
  shows "count_of (snd (handle_violation lib A env upd rsn del w)) v =
     (if v = tg_id user \<and> inc_warning_ok env then map_option (\<lambda>c. c + 1) (count_of w v)
      else count_of w v)"
  unfolding hv_unfold[OF assms] Let_def
  by (simp add: notify_admin_frame dispatch_tier_count record_violation_count
      split: sum.splits option.splits)

lemma hv_absent:
  assumes "effective_user upd = Inr (Some user)" and "effective_chat upd = Inr chat"
    and "users w (tg_id user) = None"
  shows "users (snd (handle_violation lib A env upd rsn del w)) = users w"
  unfolding hv_unfold[OF assms(1,2)] Let_def
  by (simp add: notify_admin_frame dispatch_tier_absent record_violation_absent assms(3)
      split: sum.splits option.splits)

lemma send_reminder_count: "count_of (snd (send_reminder ok w)) v = count_of w v"
  by (simp add: send_reminder_def Let_def count_of_def log_error_def log_info_def emit_call_def
      split: option.splits)

lemma remove_subscription_count:
  "count_of (snd (remove_subscription ok1 ok2 u w)) v = count_of w v"
  by (auto simp: remove_subscription_def Let_def count_of_def log_error_def update_user_doc_def
      split: option.splits)

lemma set_user_banned_count:
  "count_of (snd (set_user_banned ok u b w)) v = count_of w v"
  by (auto simp: set_user_banned_def Let_def count_of_def log_error_def update_user_doc_def
      split: option.splits)

lemma store_value:
  "fst (remove_subscription ok1 ok2 u w) = Inr ()"
  "fst (set_user_banned ok u b w) = Inr ()"
  "fst (set_user_muted ok u b w) = Inr ()"
  "fst (notify_admin A ok msg w) = Inr ()"
  by (simp_all add: remove_subscription_def set_user_banned_def set_user_muted_def
      notify_admin_def Let_def)

lemma notify_admin_no_raise: "notify_admin A ok msg w \<noteq> (Inl e, w')"
  by (simp add: notify_admin_def Let_def)

lemma and_then_value: "fst r = Inr x \<Longrightarrow> and_then r f = f x (snd r)"
  by (cases r) (simp add: and_then_def)

lemma expire_user_unfold:
  "expire_user A env gid u w =
     (if \<not> sw_find_ok env then log_error ''Error getting user'' w
      else case users w u of
        None \<Rightarrow> w
      | Some d \<Rightarrow>
          if \<not> sw_ban_ok env
          then log_error ''Failed to remove expired user'' (emit_call (BanMember gid u) False w)
          else log_info ''Removed expired subscription user''
                 (snd (notify_admin A (sw_notify_ok env) (ExpiredAlert u (first_name d))
                   (snd (set_user_banned (sw_flag_ok env) u True
                     (snd (remove_subscription (sw_delete_ok env) (sw_clear_ok env) u
                        (emit_call (BanMember gid u) True w))))))))"
  by (simp add: expire_user_def get_user_def Let_def and_then_value store_value
      notify_admin_no_raise split: option.splits prod.splits sum.splits)

lemma expire_user_count: "count_of (expire_user A env gid u w) v = count_of w v"
  by (simp add: expire_user_unfold count_of_simps notify_admin_frame set_user_banned_count
      remove_subscription_count split: option.splits)

lemma expire_users_count: "count_of (expire_users A envs gid us w) v = count_of w v"
  using expire_user_count by (induction us arbitrary: w) simp_all

lemma sweep_count:
  "count_of (snd (check_expired_subscriptions A lok now envs w)) v = count_of w v"
  by (simp add: check_expired_subscriptions_def get_expired_subscriptions_def and_then_def
      expire_users_count count_of_simps split: option.splits)

lemma read_count_ok:
  "find_user_ok env \<Longrightarrow> read_count env w u = (case count_of w u of None \<Rightarrow> 0 | Some c \<Rightarrow> c)"
  by (simp add: read_count_def get_user_def count_of_def split: option.splits)

lemma example_update:
  "effective_user (update_from u m) = Inr (Some u)"
  "effective_chat (update_from u m) = Inr (Some \<lparr>chat_id = - 100\<rparr>)"
  "upd_message (update_from u m) = Some (TgMessage m)"
  by (simp_all add: update_from_def)

lemma violate_count: "count_of (violate w) 7 = map_option (\<lambda>c. c + 1) (count_of w 7)"
  unfolding violate_def
  by (subst hv_count[OF example_update(1,2)]) (simp add: mallory_def all_ok_def)

lemma example_counts:
  "count_of group_world 7 = Some 0" "count_of repeat_offender_world 7 = Some 4"
  by (simp_all add: count_of_def group_world_def repeat_offender_world_def empty_world_def
      mallory_doc_def)

lemma all_ok_simps:
  "find_user_ok all_ok" "delete_ok all_ok" "insert_warning_ok all_ok" "inc_warning_ok all_ok"
  "chat_send_ok all_ok" "restrict_ok all_ok" "ban_ok all_ok" "set_flag_ok all_ok"
  "admin_send_ok all_ok" "t_warning all_ok = 63000000000000001"
  "t_last_warning all_ok = 63000000000000002" "local_now all_ok = 1700000000"
  "t_alert all_ok = 63000000000000003"
  by (simp_all add: all_ok_def)

lemma mallory_simps:
  "tg_id mallory = 7" "tg_first_name mallory = ''Mallory''" "tg_username mallory = Some ''mallory''"
  by (simp_all add: mallory_def)

lemma group_world_simps:
  "users group_world = [7 \<mapsto> mallory_doc]" "warnings group_world = []"
  "subscriptions group_world = []" "logs group_world = []" "outbox group_world = []"
  "group_id group_world = Some (- 100)"
  by (simp_all add: group_world_def empty_world_def)

lemma hm_no_forward_attrs:
  assumes "\<not> message_forward_attrs lib" and "tg_id u \<noteq> A"
  shows "handle_message lib A env (update_from u m) w = (Inl AttributeError, w)"
  using assms by (simp add: handle_message_def example_update)

lemma hm_admin: "handle_message lib (tg_id u) env (update_from u m) w = (Inr (), w)"
  by (simp add: handle_message_def example_update)

lemma ptb_simps:
  "\<not> message_forward_attrs ptb" "\<not> permissions_media_keyword ptb"
  "message_forward_attrs ptb_with_forward_attrs"
  by (simp_all add: ptb_def ptb_with_forward_attrs_def)

lemma read_count_eq:
  "read_count env w u =
     (if find_user_ok env then (case count_of w u of None \<Rightarrow> 0 | Some c \<Rightarrow> c) else 0)"
  by (simp add: read_count_def get_user_def count_of_def split: option.splits)

lemma ban_refused_simps:
  "find_user_ok ban_refused" "insert_warning_ok ban_refused" "inc_warning_ok ban_refused"
  "\<not> ban_ok ban_refused" "delete_ok ban_refused" "admin_send_ok ban_refused"
  "t_alert ban_refused = 63000000000000003"
  by (simp_all add: all_ok_def ban_refused_def)

lemma read_fails_simps:
  "\<not> find_user_ok read_fails" "insert_warning_ok read_fails" "inc_warning_ok read_fails"
  by (simp_all add: all_ok_def read_fails_def)

lemma mute_fails_simps:
  "find_user_ok mute_fails" "insert_warning_ok mute_fails" "inc_warning_ok mute_fails"
  "\<not> restrict_ok mute_fails" "t_warning mute_fails = 63000000000000001"
  "delete_ok mute_fails" "admin_send_ok mute_fails" "t_alert mute_fails = 63000000000000003"
  "local_now mute_fails = 1700000000"
  by (simp_all add: all_ok_def mute_fails_def)

lemma notice_fails_simps:
  "find_user_ok notice_fails" "insert_warning_ok notice_fails" "inc_warning_ok notice_fails"
  "\<not> chat_send_ok notice_fails" "delete_ok notice_fails"
  by (simp_all add: all_ok_def notice_fails_def)

lemma record_violation_calls:
  "outbox (snd (record_violation A env upd user rsn del w)) =
     outbox w @ (if del then (case upd_message upd of
                                Some (TgMessage m) \<Rightarrow> [(DeleteMessage, delete_ok env)]
                              | _ \<Rightarrow> [])
                 else [])"
  by (simp add: record_violation_def and_then_def get_user_def add_warning_def
      update_user_warning_def delete_violating_message_def Let_def outbox_simps
      split: option.splits msg_obj.splits)

lemma update_user_doc_none:
  "users (update_user_doc v f w) u = None \<longleftrightarrow> users w u = None"
  by (simp add: update_user_doc_def split: option.splits)

lemma record_violation_none:
  "users w u = None \<Longrightarrow> users (snd (record_violation A env upd user rsn del w)) u = None"
  by (simp add: record_violation_def and_then_def get_user_def add_warning_def
      update_user_warning_def delete_violating_message_def Let_def users_simps
      update_user_doc_none split: option.splits msg_obj.splits)

lemma dispatch_tier_none:
  "users w u = None \<Longrightarrow> users (snd (dispatch_tier lib env user chat rsn n w)) u = None"
  by (simp add: tier_defs set_user_muted_def set_user_banned_def Let_def users_simps
      update_user_doc_none split: option.splits)

lemma hv_none:
  assumes "users w u = None"
  shows "users (snd (handle_violation lib A env upd rsn del w)) u = None"
proof (cases "effective_user upd")
  case (Inl e)
  then show ?thesis using assms by (simp add: handle_violation_def)
next
  case (Inr uo)
  note eu = this
  show ?thesis
  proof (cases "effective_chat upd")
    case (Inl e)
    then show ?thesis using assms eu by (simp add: handle_violation_def)
  next
    case (Inr chat)
    show ?thesis
    proof (cases uo)
      case None
      then show ?thesis using assms eu Inr by (simp add: handle_violation_def)
    next
      case (Some user)
      have eu': "effective_user upd = Inr (Some user)" using eu Some by simp
      show ?thesis
        unfolding hv_unfold[OF eu' Inr] Let_def
        by (simp add: notify_admin_frame dispatch_tier_none record_violation_none assms
            split: sum.splits option.splits)
    qed
  qed
qed

lemma run_violations_none:
  "users w u = None \<Longrightarrow> users (run_violations lib A vs w) u = None"
proof (induction vs arbitrary: w)
  case Nil
  then show ?case by simp
next
  case (Cons v vs)
  obtain env upd rsn del where v: "v = (env, upd, rsn, del)" by (cases v) auto
  show ?case
    using Cons.prems by (simp add: v Cons.IH hv_none)
qed

lemma read_count_absent: "users w u = None \<Longrightarrow> read_count env w u = 0"
  by (simp add: read_count_def get_user_def)

lemma reply_text_frame:
  "users (snd (reply_text ok upd msg w)) = users w"
  "warnings (snd (reply_text ok upd msg w)) = warnings w"
  by (simp_all add: reply_text_def emit_call_def split: option.splits msg_obj.splits)

lemma admin_warn_outcome_frame:
  "users (snd (case x of
        (Inr u0, w2) \<Rightarrow> (Inr (), w2)
      | (Inl ValueError, w2) \<Rightarrow> reply_text e upd InvalidUserIdReply w2
      | (Inl ex, w2) \<Rightarrow> reply_text e upd ErrorIssuingReply (log_error ''Error in admin_warn'' w2)))
     = users (snd x)"
  "warnings (snd (case x of
        (Inr u0, w2) \<Rightarrow> (Inr (), w2)
      | (Inl ValueError, w2) \<Rightarrow> reply_text e upd InvalidUserIdReply w2
      | (Inl ex, w2) \<Rightarrow> reply_text e upd ErrorIssuingReply (log_error ''Error in admin_warn'' w2)))
     = warnings (snd x)"
  by (simp_all add: reply_text_frame users_simps warnings_simps
      split: prod.splits sum.splits exn.splits)

lemma and_then_reply_frame:
  "users (snd (and_then r (\<lambda>u w1. reply_text ok upd msg w1))) = users (snd r)"
  "warnings (snd (and_then r (\<lambda>u w1. reply_text ok upd msg w1))) = warnings (snd r)"
  by (simp_all add: and_then_def reply_text_frame split: prod.splits sum.splits)

lemma admin_warn_ignores_user_id:
  assumes "py_int lib a = Some u" and "py_int lib b = Some v"
  shows "users (snd (admin_warn A lib env upd (Some (a # r # rs)) w)) =
         users (snd (admin_warn A lib env upd (Some (b # r # rs)) w))
       \<and> warnings (snd (admin_warn A lib env upd (Some (a # r # rs)) w)) =
         warnings (snd (admin_warn A lib env upd (Some (b # r # rs)) w))"
  using assms
  by (simp add: admin_warn_def admin_warn_outcome_frame and_then_reply_frame
      split: sum.splits option.splits)

lemma new_calls_trans:
  assumes "outbox w1 = outbox w @ xs" and "outbox w2 = outbox w1 @ ys"
  shows "new_calls w w2 = new_calls w w1 @ new_calls w1 w2"
  using assms by (simp add: new_calls_def)

lemma expire_user_calls:
  "outbox (expire_user A env gid x w) = outbox w @
     (if sw_find_ok env
      then case users w x of
             None \<Rightarrow> []
           | Some d \<Rightarrow>
               if sw_ban_ok env
               then [(BanMember gid x, True),
                     (SendMessage A (ExpiredAlert x (first_name d)), sw_notify_ok env)]
               else [(BanMember gid x, False)]
      else [])"
  by (simp add: expire_user_unfold outbox_simps notify_admin_outbox set_user_banned_def
      remove_subscription_def Let_def split: option.splits)

lemma expire_user_dom: "users (expire_user A env gid u w) v = None \<longleftrightarrow> users w v = None"
  by (simp add: expire_user_unfold users_simps notify_admin_frame set_user_banned_def
      remove_subscription_def Let_def update_user_doc_none split: option.splits)

lemma expire_users_outbox:
  "\<exists>xs. outbox (expire_users A envs gid us w) = outbox w @ xs"
proof (induction us arbitrary: w)
  case Nil
  then show ?case by simp
next
  case (Cons u us)
  obtain ys where "outbox (expire_users A envs gid us (expire_user A (envs u) gid u w))
      = outbox (expire_user A (envs u) gid u w) @ ys"
    using Cons.IH by blast
  then show ?case by (simp add: expire_user_calls)
qed

lemma expire_users_calls_Cons:
  "new_calls w (expire_users A envs gid (x # us) w) =
     new_calls w (expire_user A (envs x) gid x w)
     @ new_calls (expire_user A (envs x) gid x w)
         (expire_users A envs gid us (expire_user A (envs x) gid x w))"
proof -
  obtain ys where "outbox (expire_users A envs gid us (expire_user A (envs x) gid x w))
      = outbox (expire_user A (envs x) gid x w) @ ys"
    using expire_users_outbox by blast
  with expire_user_calls[of A "envs x" gid x w] show ?thesis
    by (simp add: new_calls_def)
qed

lemma expire_user_new_calls:
  "new_calls w (expire_user A env gid x w) =
     (if sw_find_ok env
      then case users w x of
             None \<Rightarrow> []
           | Some d \<Rightarrow>
               if sw_ban_ok env
               then [(BanMember gid x, True),
                     (SendMessage A (ExpiredAlert x (first_name d)), sw_notify_ok env)]
               else [(BanMember gid x, False)]
      else [])"
  by (rule new_calls_append) (rule expire_user_calls)

lemma sweep_unfold:
  assumes "group_id w = Some g" and "g \<noteq> 0" and "fst (get_expired_subscriptions lok now w) = Inr ids"
  shows "check_expired_subscriptions A lok now envs w =
      (Inr (), expire_users A envs g ids (snd (get_expired_subscriptions lok now w)))"
  using assms
  by (simp add: check_expired_subscriptions_def and_then_value)

lemma get_expired_frame:
  "users (snd (get_expired_subscriptions lok now w)) = users w"
  "outbox (snd (get_expired_subscriptions lok now w)) = outbox w"
  by (simp_all add: get_expired_subscriptions_def users_simps outbox_simps)

lemma new_calls_same_outbox: "outbox w1 = outbox w \<Longrightarrow> new_calls w w' = new_calls w1 w'"
  by (simp add: new_calls_def)

lemma sweep_world_simps:
  "users sweep_world = [7 \<mapsto> mallory_doc, 9 \<mapsto> nina_doc]"
  "subscriptions sweep_world = [(7, lapsed), (8, lapsed), (9, lapsed)]"
  "group_id sweep_world = Some (- 100)" "outbox sweep_world = []"
  by (simp_all add: sweep_world_def empty_world_def)

lemma map_of_delete:
  "distinct (map fst subs) \<Longrightarrow>
     map_of (delete_subscription x subs) u = (if u = x then None else map_of subs u)"
proof (induction x subs rule: delete_subscription.induct)
  case (1 user_id)
  then show ?case by simp
next
  case (2 user_id k d rest)
  show ?case
  proof (cases "k = user_id")
    case True
    have "user_id \<notin> fst ` set rest" using 2(2) True by simp
    then have "map_of rest user_id = None" by (simp add: map_of_eq_None_iff)
    then show ?thesis using True by simp
  next
    case False
    then show ?thesis using 2 by auto
  qed
qed

lemma set_delete_subset: "set (delete_subscription x subs) \<subseteq> set subs"
  by (induction x subs rule: delete_subscription.induct) auto

lemma distinct_delete:
  "distinct (map fst subs) \<Longrightarrow> distinct (map fst (delete_subscription x subs))"
proof (induction x subs rule: delete_subscription.induct)
  case (1 user_id)
  then show ?case by simp
next
  case (2 user_id k d rest)
  show ?case
  proof (cases "k = user_id")
    case True
    then show ?thesis using 2 by simp
  next
    case False
    have "k \<notin> fst ` set (delete_subscription user_id rest)"
      using 2(2) set_delete_subset[of user_id rest] by auto
    then show ?thesis using False 2 by simp
  qed
qed

lemma subscriptions_simps:
  "subscriptions (log_error m w) = subscriptions w" "subscriptions (log_info m w) = subscriptions w"
  "subscriptions (emit_call c ok w) = subscriptions w"
  "subscriptions (update_user_doc v f w) = subscriptions w"
  by (simp_all add: log_error_def log_info_def emit_call_def update_user_doc_def
      split: option.splits)

lemma expire_user_subscriptions:
  "subscriptions (expire_user A e g x w) =
     (if users w x \<noteq> None \<and> sw_find_ok e \<and> sw_ban_ok e \<and> sw_delete_ok e
      then delete_subscription x (subscriptions w) else subscriptions w)"
  by (simp add: expire_user_unfold subscriptions_simps notify_admin_frame set_user_banned_def
      remove_subscription_def Let_def split: option.splits)

lemma expire_user_users:
  "users (expire_user A e g x w) u =
     (if x = u
      then (case users w u of
              None \<Rightarrow> None
            | Some d \<Rightarrow>
                if sw_find_ok e \<and> sw_ban_ok e
                then Some (d\<lparr>subscription_expiry :=
                               (if sw_delete_ok e \<and> sw_clear_ok e then None
                                else subscription_expiry d),
                             is_banned := (if sw_flag_ok e then True else is_banned d)\<rparr>)
                else Some d)
      else users w u)"
  by (simp add: expire_user_unfold users_simps notify_admin_frame set_user_banned_def
      remove_subscription_def update_user_doc_def Let_def split: option.splits)

lemma expire_user_about:
  "calls_about u (new_calls w (expire_user A e g x w)) =
     (if x = u then new_calls w (expire_user A e g x w) else [])"
proof (cases "users w x")
  case None
  have "new_calls w (expire_user A e g x w) = []"
    unfolding expire_user_new_calls by (simp add: None)
  then show ?thesis by (auto simp: calls_about_def)
next
  case (Some d)
  have "new_calls w (expire_user A e g x w) =
     (if sw_find_ok e
      then if sw_ban_ok e
           then [(BanMember g x, True),
                 (SendMessage A (ExpiredAlert x (first_name d)), sw_notify_ok e)]
           else [(BanMember g x, False)]
      else [])"
    unfolding expire_user_new_calls by (simp add: Some)
  then show ?thesis by (auto simp: calls_about_def)
qed

lemma expire_user_distinct:
  "distinct (map fst (subscriptions w)) \<Longrightarrow>
     distinct (map fst (subscriptions (expire_user A e g x w)))"
  by (simp add: expire_user_subscriptions distinct_delete)

lemma expire_user_map_of:
  "distinct (map fst (subscriptions w)) \<Longrightarrow>
     map_of (subscriptions (expire_user A e g x w)) u =
       (if x = u \<and> users w u \<noteq> None \<and> sw_find_ok e \<and> sw_ban_ok e \<and> sw_delete_ok e
        then None else map_of (subscriptions w) u)"
  by (auto simp: expire_user_subscriptions map_of_delete)

lemma calls_about_append: "calls_about u (xs @ ys) = calls_about u xs @ calls_about u ys"
  by (simp add: calls_about_def)

lemma expire_users_other:
  assumes "u \<notin> set us"
  shows "users (expire_users A envs g us w) u = users w u
       \<and> (distinct (map fst (subscriptions w)) \<longrightarrow>
            map_of (subscriptions (expire_users A envs g us w)) u = map_of (subscriptions w) u)
       \<and> calls_about u (new_calls w (expire_users A envs g us w)) = []"
  using assms
proof (induction us arbitrary: w)
  case Nil
  then show ?case by (simp add: new_calls_def calls_about_def)
next
  case (Cons x us)
  then have ne: "x \<noteq> u" and notin: "u \<notin> set us" by auto
  note ih = Cons.IH[OF notin, of "expire_user A (envs x) g x w"]
  show ?case
    unfolding expire_users_calls_Cons calls_about_append
    using ih ne
    by (simp add: expire_user_users expire_user_map_of expire_user_distinct expire_user_about)
qed

lemma expire_users_own:
  assumes "u \<in> set us" and "distinct us" and "distinct (map fst (subscriptions w))"
  shows "users (expire_users A envs g us w) u = users (expire_user A (envs u) g u w) u
       \<and> map_of (subscriptions (expire_users A envs g us w)) u
           = map_of (subscriptions (expire_user A (envs u) g u w)) u
       \<and> calls_about u (new_calls w (expire_users A envs g us w))
           = new_calls w (expire_user A (envs u) g u w)"
  using assms
proof (induction us arbitrary: w)
  case Nil
  then show ?case by simp
next
  case (Cons x us)
  show ?case
  proof (cases "x = u")
    case True
    then have notin: "u \<notin> set us" using Cons.prems(2) by simp
    have d: "distinct (map fst (subscriptions (expire_user A (envs u) g u w)))"
      using Cons.prems(3) by (rule expire_user_distinct)
    note o = expire_users_other[OF notin, of A envs g "expire_user A (envs u) g u w"]
    show ?thesis
      unfolding expire_users_calls_Cons calls_about_append
      using o d True by (simp add: expire_user_about)
  next
    case False
    then have "u \<in> set us" and "distinct us" using Cons.prems(1,2) by simp_all
    moreover have d: "distinct (map fst (subscriptions (expire_user A (envs x) g x w)))"
      using Cons.prems(3) by (rule expire_user_distinct)
    ultimately have ih:
      "users (expire_users A envs g us (expire_user A (envs x) g x w)) u
         = users (expire_user A (envs u) g u (expire_user A (envs x) g x w)) u
       \<and> map_of (subscriptions (expire_users A envs g us (expire_user A (envs x) g x w))) u
           = map_of (subscriptions (expire_user A (envs u) g u (expire_user A (envs x) g x w))) u
       \<and> calls_about u (new_calls (expire_user A (envs x) g x w)
             (expire_users A envs g us (expire_user A (envs x) g x w)))
           = new_calls (expire_user A (envs x) g x w)
               (expire_user A (envs u) g u (expire_user A (envs x) g x w))"
      by (rule Cons.IH)
    have same_user: "users (expire_user A (envs x) g x w) u = users w u"
      using False by (simp add: expire_user_users)
    have same_sub: "map_of (subscriptions (expire_user A (envs x) g x w)) u
        = map_of (subscriptions w) u"
      using False Cons.prems(3) by (simp add: expire_user_map_of)
    have calls: "new_calls (expire_user A (envs x) g x w)
               (expire_user A (envs u) g u (expire_user A (envs x) g x w))
        = new_calls w (expire_user A (envs u) g u w)"
      unfolding expire_user_new_calls by (simp add: same_user)
    show ?thesis
      unfolding expire_users_calls_Cons calls_about_append
      using ih False
      by (auto simp: expire_user_users expire_user_map_of d Cons.prems(3) same_user same_sub
          calls expire_user_about)
  qed
qed


lemma expired_ids_distinct:
  assumes "fst (get_expired_subscriptions lok now w) = Inr ids"
    and "distinct (map fst (subscriptions w))"
  shows "distinct ids"
  using assms by (auto simp: get_expired_subscriptions_def distinct_map_filter split: if_splits)

lemma get_expired_subscriptions_frame:
  "subscriptions (snd (get_expired_subscriptions lok now w)) = subscriptions w"
  by (simp add: get_expired_subscriptions_def subscriptions_simps)

section \<open>Store failures\<close>

text \<open>
  Claim C7. When the backing store fails, a DatabaseManager method does not pass the
  failure on: \<open>get_user\<close> returns \<open>None\<close>, \<open>get_user_warnings\<close> and
  \<open>get_expired_subscriptions\<close> return the empty list, \<open>update_user_warning\<close> returns
  \<open>False\<close>, and every mutating method logs and returns normally (a method with two driver
  calls keeps what its first call did when the second fails). No method ever raises
  PyMongoError; what \<open>add_subscription\<close> can raise is the OverflowError of its own date
  arithmetic, before it touches the store.
\<close>

theorem store_failure_safe_default:
  "get_user False u w = (Inr None, log_error ''Error getting user'' w)
   \<and> get_user_warnings False u n w = (Inr [], log_error ''Error getting warnings'' w)
   \<and> get_expired_subscriptions False now w =
       (Inr [], log_error ''Error getting expired subscriptions'' w)
   \<and> update_user_warning False now u inc w = (Inr False, log_error ''Error updating warnings'' w)
   \<and> create_user False now u un fn ln w = (Inr (), log_error ''Error creating user'' w)
   \<and> reset_user_warnings False u w = (Inr (), log_error ''Error resetting warnings'' w)
   \<and> set_user_muted False u b w = (Inr (), log_error ''Error setting mute status'' w)
   \<and> set_user_banned False u b w = (Inr (), log_error ''Error setting ban status'' w)
   \<and> add_warning False now u rsn adm w = (Inr (), log_error ''Error adding warning'' w)
   \<and> remove_subscription False ok2 u w = (Inr (), log_error ''Error removing subscription'' w)
   \<and> remove_subscription True False u w =
       (Inr (), log_error ''Error removing subscription''
                  (w\<lparr>subscriptions := delete_subscription u (subscriptions w)\<rparr>))
   \<and> add_subscription False ok2 now now' u days w =
       (case timedelta_days days of
          Inl e \<Rightarrow> (Inl e, w)
        | Inr delta \<Rightarrow>
            (case datetime_add now delta of
               Inl e \<Rightarrow> (Inl e, w)
             | Inr expiry \<Rightarrow> (Inr (), log_error ''Error adding subscription'' w)))
   \<and> (\<forall>ok1 ok2 op w. fst (run_op ok1 ok2 op w) \<noteq> Some PyMongoError)"
proof -
  have "fst (run_op ok1 ok2 op w) \<noteq> Some PyMongoError" for ok1 ok2 op w
    by (cases op)
      (auto simp: get_user_def create_user_def update_user_warning_def reset_user_warnings_def
        set_user_muted_def set_user_banned_def add_warning_def get_user_warnings_def
        add_subscription_def get_expired_subscriptions_def remove_subscription_def
        timedelta_days_def datetime_add_def Let_def split: sum.splits if_splits)
  then show ?thesis
    by (simp add: get_user_def create_user_def update_user_warning_def reset_user_warnings_def
        set_user_muted_def set_user_banned_def add_warning_def get_user_warnings_def
        add_subscription_def get_expired_subscriptions_def remove_subscription_def
        split: sum.splits)
qed

section \<open>The escalation tiers\<close>

text \<open>
  Claim C1, as the specification states it, fails: the tier does not follow the stored
  count plus one when the read of the user's record fails. \<open>get_user\<close> then returns
  \<open>None\<close>, and \<open>handle_violation\<close> starts from 0. User 7 has four warnings on record; the
  store fails on the read; the violation is dispatched to the WARNING tier, not to BAN.
\<close>

theorem failed_read_dispatches_warning_counterexample:
  "count_of repeat_offender_world 7 = Some 4
   \<and> tiers_run repeat_offender_world
        (snd (handle_violation ptb 99 read_fails (update_from mallory forwarded_message)
                ''Forwarded message'' True repeat_offender_world))
      = [WARNING]"
  by (simp add: hv_tiers[OF example_update(1,2)] read_count_eq read_fails_simps example_counts)

text \<open>
  Claim C1, amended. The tier a violation is dispatched to is determined by the count the
  handler reads plus one, and by nothing else; the count read is the stored count, and 0
  when the user has no record or the read fails. A new count of 1 gives WARNING, 2 gives
  MUTE, 3 or more gives BAN. Time plays no part: the two scheduled jobs, the reminder and
  the subscription sweep, leave every stored count as it is.
\<close>

theorem tier_determined_by_count_read:
  assumes "effective_user upd = Inr (Some user)" and "effective_chat upd = Inr (Some c)"
  shows "tiers_run w (snd (handle_violation lib A env upd rsn del w)) =
           (let n = (if find_user_ok env
                     then (case count_of w (tg_id user) of None \<Rightarrow> 0 | Some k \<Rightarrow> k)
                     else 0) + 1
            in if n = 1 then [WARNING] else if n = 2 then [MUTE]
               else if 3 \<le> n then [BAN] else [])
       \<and> (\<forall>v. count_of (snd (send_reminder ok w)) v = count_of w v)
       \<and> (\<forall>v. count_of (snd (check_expired_subscriptions A lok now envs w)) v = count_of w v)"
  using hv_tiers[OF assms, of w lib A env rsn del]
  by (simp add: send_reminder_count sweep_count read_count_eq)

theorem tier_determined_by_count_read_witness:
  "effective_user (update_from mallory forwarded_message) = Inr (Some mallory)
   \<and> effective_chat (update_from mallory forwarded_message) = Inr (Some \<lparr>chat_id = - 100\<rparr>)
   \<and> tiers_run group_world (violate group_world) = [WARNING]
   \<and> tiers_run (violate group_world) (violate (violate group_world)) = [MUTE]
   \<and> tiers_run (violate (violate group_world)) (violate (violate (violate group_world))) = [BAN]
   \<and> tiers_run repeat_offender_world (violate repeat_offender_world) = [BAN]"
proof -
  have id: "tg_id mallory = 7" by (simp add: mallory_def)
  note t = tier_determined_by_count_read[OF example_update(1,2),
      where lib = ptb and A = 99 and env = all_ok and rsn = "''Forwarded message''"
        and del = True and user = mallory and m1 = forwarded_message,
      THEN conjunct1, folded violate_def, unfolded id]
  show ?thesis
    by (simp add: t violate_count example_counts example_update all_ok_simps)
qed

section \<open>The warning record\<close>

text \<open>
  Claim C4, as the specification states it, fails: the Warning record of an automatically
  detected violation does not carry admin id 0. \<open>handle_violation\<close> passes the configured
  \<^verbatim>\<open>ADMIN_ID\<close> to \<open>add_warning\<close>; with the administrator 99, a violation of user 7,
  handled for the reason \<^verbatim>\<open>External link\<close> with which \<open>handle_message\<close> calls it, is
  recorded with admin id 99.
\<close>

theorem warning_admin_id_counterexample:
  "warnings (snd (handle_violation ptb 99 all_ok (update_from mallory link_message)
                    ''External link'' True group_world)) =
     [\<lparr>w_user_id = 7, reason = ''External link'', admin_id = 99,
       timestamp = 63000000000000001, resolved = False\<rparr>]"
  by (simp add: hv_warnings[OF example_update(1,2)] all_ok_simps mallory_simps
      group_world_simps)

text \<open>
  Claim C4, amended. For every violation handled for a user, whatever the outcome of the
  deletion, of the mute or ban and of every message sent: when the store takes the insert,
  exactly one Warning record is appended, carrying the user's id, the reason and the
  configured \<^verbatim>\<open>ADMIN_ID\<close> as issuing admin id (with the insert failing, none is); and the
  stored count of a user who has a record goes up by one when the store takes the update.
  Nothing later in the handler takes the record or the increment back.
\<close>

theorem warning_persisted_before_sanction:
  assumes "effective_user upd = Inr (Some user)" and "effective_chat upd = Inr chat"
  shows "warnings (snd (handle_violation lib A env upd rsn del w)) =
           (if insert_warning_ok env
            then warnings w @ [\<lparr>w_user_id = tg_id user, reason = rsn, admin_id = A,
                                timestamp = t_warning env, resolved = False\<rparr>]
            else warnings w)
       \<and> count_of (snd (handle_violation lib A env upd rsn del w)) (tg_id user) =
           (if inc_warning_ok env then map_option (\<lambda>c. c + 1) (count_of w (tg_id user))
            else count_of w (tg_id user))"
  using hv_warnings[OF assms] hv_count[OF assms] by simp

theorem warning_persisted_before_sanction_witness:
  "effective_user (update_from mallory forwarded_message) = Inr (Some mallory)
   \<and> effective_chat (update_from mallory forwarded_message) = Inr (Some \<lparr>chat_id = - 100\<rparr>)
   \<and> restrict_ok mute_fails = False
   \<and> tiers_run (violate group_world)
       (snd (handle_violation ptb 99 mute_fails (update_from mallory forwarded_message)
               ''Forwarded message'' True (violate group_world))) = [MUTE]
   \<and> warnings (snd (handle_violation ptb 99 mute_fails (update_from mallory forwarded_message)
         ''Forwarded message'' True (violate group_world))) =
       warnings (violate group_world) @
       [\<lparr>w_user_id = 7, reason = ''Forwarded message'', admin_id = 99,
         timestamp = 63000000000000001, resolved = False\<rparr>]
   \<and> count_of (snd (handle_violation ptb 99 mute_fails (update_from mallory forwarded_message)
         ''Forwarded message'' True (violate group_world))) 7 = Some 2"
  using warning_persisted_before_sanction[OF example_update(1,2),
      where lib = ptb and A = 99 and env = mute_fails and rsn = "''Forwarded message''"
        and del = True and w = "violate group_world" and user = mallory
        and m1 = forwarded_message]
  by (simp add: example_update mute_fails_simps mallory_simps violate_count example_counts
      hv_tiers[OF example_update(1,2)] read_count_ok)

section \<open>The notification of the administrator\<close>

text \<open>
  Claim C8 holds of the specification and not of the code. In the WARNING tier the message
  to the group is sent outside any \<^verbatim>\<open>try\<close>: when Telegram refuses it, the exception leaves
  \<open>handle_violation\<close> and the administrator is never notified. User 7, with no warning
  yet, is reported for a link; the notice to the group fails; the handler raises and its
  only calls are the deletion and the failed notice. The MUTE and BAN tiers catch their
  failures: the same user's second violation, whose mute fails, ends with the alert sent to
  the administrator, action MUTE_FAILED, and the third, whose ban Telegram refuses, with
  the alert and action BAN_FAILED.
\<close>

theorem warning_tier_failure_skips_admin_alert:
  "fst (handle_violation ptb 99 notice_fails (update_from mallory link_message)
          ''External link'' True group_world)
     = Inl TelegramError
   \<and> outbox (snd (handle_violation ptb 99 notice_fails (update_from mallory link_message)
                    ''External link'' True group_world))
     = [(DeleteMessage, True),
        (SendMessage (- 100) (WarningNotice 1 ''Mallory'' ''External link''), False)]
   \<and> new_calls (violate group_world)
       (snd (handle_violation ptb 99 mute_fails (update_from mallory forwarded_message)
               ''Forwarded message'' True (violate group_world)))
     = [(DeleteMessage, True),
        (SendMessage 99 (ViolationAlert ''Mallory'' ''mallory'' 7 ''Forwarded message'' 2
                           ''MUTE_FAILED'' 63000000000000003), True)]
   \<and> new_calls (violate (violate group_world))
       (snd (handle_violation ptb 99 ban_refused (update_from mallory forwarded_message)
               ''Forwarded message'' True (violate (violate group_world))))
     = [(DeleteMessage, True),
        (BanMember (- 100) 7, False),
        (SendMessage 99 (ViolationAlert ''Mallory'' ''mallory'' 7 ''Forwarded message'' 3
                           ''BAN_FAILED'' 63000000000000003), True)]"
proof -
  have a: "handle_violation ptb 99 notice_fails (update_from mallory link_message)
             ''External link'' True group_world =
     (Inl TelegramError,
      emit_call (SendMessage (- 100) (WarningNotice 1 ''Mallory'' ''External link'')) False
        (snd (record_violation 99 notice_fails (update_from mallory link_message) mallory
               ''External link'' True group_world)))"
    by (simp add: hv_unfold[OF example_update(1,2)] read_count_ok notice_fails_simps
        mallory_simps example_counts dispatch_tier_def warning_tier_def Let_def)
  have b: "handle_violation ptb 99 mute_fails (update_from mallory forwarded_message)
               ''Forwarded message'' True (violate group_world) =
      notify_admin 99 True (ViolationAlert ''Mallory'' ''mallory'' 7 ''Forwarded message'' 2
                           ''MUTE_FAILED'' 63000000000000003)
       (log_error ''Failed to mute user''
          (snd (record_violation 99 mute_fails (update_from mallory forwarded_message) mallory
               ''Forwarded message'' True (violate group_world))))"
    by (simp add: hv_unfold[OF example_update(1,2)] read_count_ok mute_fails_simps
        mallory_simps example_counts violate_count dispatch_tier_def mute_tier_def Let_def
        name_or_na_def ptb_simps)
  have c: "handle_violation ptb 99 ban_refused (update_from mallory forwarded_message)
               ''Forwarded message'' True (violate (violate group_world)) =
      notify_admin 99 True (ViolationAlert ''Mallory'' ''mallory'' 7 ''Forwarded message'' 3
                           ''BAN_FAILED'' 63000000000000003)
       (log_error ''Failed to ban user'' (emit_call (BanMember (- 100) 7) False
          (snd (record_violation 99 ban_refused (update_from mallory forwarded_message) mallory
               ''Forwarded message'' True (violate (violate group_world))))))"
    by (simp add: hv_unfold[OF example_update(1,2)] read_count_ok ban_refused_simps
        mallory_simps example_counts violate_count dispatch_tier_def ban_tier_def Let_def
        name_or_na_def)
  show ?thesis
    unfolding a b c
    by (simp add: outbox_simps record_violation_calls example_update notice_fails_simps
        mute_fails_simps ban_refused_simps group_world_simps notify_admin_outbox new_calls_def)
qed

section \<open>A user without a record\<close>

text \<open>
  Claim C10. For a user with no User record, \<open>update_user_warning\<close> modifies nothing and
  returns \<open>False\<close>, and \<open>handle_violation\<close> creates no record. So after any history of
  violations the user still has no record, the next violation reads count 0, computes the
  new count 1 and is dispatched to the WARNING tier, never to MUTE or BAN, while a Warning
  record is inserted each time the store takes it.
\<close>

theorem unregistered_user_never_escalates:
  assumes "users w uid = None"
    and "effective_user upd = Inr (Some user)" and "tg_id user = uid"
    and "effective_chat upd = Inr (Some c)"
  shows "(let w' = run_violations lib A vs w;
              w'' = snd (handle_violation lib A env upd rsn del w')
          in users w' uid = None
           \<and> update_user_warning ok now uid True w' =
               (Inr False, if ok then w' else log_error ''Error updating warnings'' w')
           \<and> read_count env w' uid + 1 = 1
           \<and> tiers_run w' w'' = [WARNING]
           \<and> users w'' = users w'
           \<and> warnings w'' =
               (if insert_warning_ok env
                then warnings w' @ [\<lparr>w_user_id = uid, reason = rsn, admin_id = A,
                                     timestamp = t_warning env, resolved = False\<rparr>]
                else warnings w'))"
proof -
  define w' where "w' = run_violations lib A vs w"
  have none: "users w' uid = None"
    unfolding w'_def using assms(1) by (rule run_violations_none)
  have none': "users w' (tg_id user) = None" using none assms(3) by simp
  have "update_user_warning ok now uid True w' =
               (Inr False, if ok then w' else log_error ''Error updating warnings'' w')"
    by (simp add: update_user_warning_def none update_absent)
  moreover have "read_count env w' uid = 0" using none by (rule read_count_absent)
  moreover have "tiers_run w' (snd (handle_violation lib A env upd rsn del w')) = [WARNING]"
    using hv_tiers[OF assms(2,4), of w' lib A env rsn del] read_count_absent[OF none', of env]
    by simp
  moreover have "users (snd (handle_violation lib A env upd rsn del w')) = users w'"
    using assms(2) assms(4) none' by (rule hv_absent)
  moreover note hv_warnings[OF assms(2,4), of lib A env rsn del w']
  ultimately show ?thesis
    using none assms(3) by (simp add: w'_def Let_def)
qed

theorem unregistered_user_never_escalates_witness:
  "users empty_world 7 = None
   \<and> effective_user (update_from mallory forwarded_message) = Inr (Some mallory)
   \<and> tg_id mallory = 7
   \<and> effective_chat (update_from mallory forwarded_message) = Inr (Some \<lparr>chat_id = - 100\<rparr>)
   \<and> tiers_run (run_violations ptb 99 unregistered_history empty_world)
        (snd (handle_violation ptb 99 all_ok (update_from mallory forwarded_message)
           ''Forwarded message'' True (run_violations ptb 99 unregistered_history empty_world)))
      = [WARNING]
   \<and> map reason (warnings
        (snd (handle_violation ptb 99 all_ok (update_from mallory forwarded_message)
           ''Forwarded message'' True (run_violations ptb 99 unregistered_history empty_world))))
      = [''Forwarded message'', ''External link'', ''Forwarded message'']
   \<and> users (snd (handle_violation ptb 99 all_ok (update_from mallory forwarded_message)
           ''Forwarded message'' True (run_violations ptb 99 unregistered_history empty_world))) 7
      = None"
proof -
  have e: "users empty_world 7 = None" by (simp add: empty_world_def)
  have ws: "warnings (run_violations ptb 99 unregistered_history empty_world) =
     [\<lparr>w_user_id = 7, reason = ''Forwarded message'', admin_id = 99,
         timestamp = 63000000000000001, resolved = False\<rparr>,
      \<lparr>w_user_id = 7, reason = ''External link'', admin_id = 99,
         timestamp = 63000000000000001, resolved = False\<rparr>]"
    by (simp add: unregistered_history_def hv_warnings[OF example_update(1,2)] all_ok_simps
        mallory_simps empty_world_def)
  show ?thesis
    using unregistered_user_never_escalates[OF e example_update(1) mallory_simps(1) example_update(2),
        where lib = ptb and A = 99 and vs = unregistered_history and env = all_ok
          and rsn = "''Forwarded message''" and del = True and ok = True and now = 0]
    by (simp add: Let_def e example_update mallory_simps all_ok_simps ws)
qed

section \<open>The manual warning\<close>

text \<open>
  Claim C3 holds of the specification and not of the code. \<open>admin_warn\<close> parses the user id
  of the command and then calls \<open>handle_violation\<close> on an update built from the update id
  and a \<^verbatim>\<open>MockMessage\<close> alone; \<open>handle_violation\<close> takes its user from that update, which
  has none, so the id of the command reaches nothing but the text of the reply (lemma
  \<open>admin_warn_ignores_user_id\<close>). With the administrator 99 and user 7 on record, the
  command \<^verbatim>\<open>/warn 7 spam links\<close> records no warning and leaves the count of user 7 at 0;
  the administrator is told that issuing the warning failed. This is so whether the
  library raises on the missing sender or gives \<^verbatim>\<open>None\<close>.
\<close>

theorem admin_warn_never_reaches_user:
  "admin_warn 99 ptb warn_env warn_command (Some [''7'', ''spam'', ''links'']) group_world =
     (Inr (), group_world\<lparr>logs := [(ERROR, ''Error in admin_warn'')],
                          outbox := [(ReplyText ErrorIssuingReply, True)]\<rparr>)
   \<and> admin_warn 99 ptb_lenient warn_env warn_command (Some [''7'', ''spam'', ''links''])
       group_world =
     (Inr (), group_world\<lparr>logs := [(ERROR, ''Error in admin_warn'')],
                          outbox := [(ReplyText ErrorIssuingReply, True)]\<rparr>)
   \<and> count_of group_world 7 = Some 0 \<and> warnings group_world = []"
proof -
  have p: "python_int ''7'' = Some 7" by code_simp
  show ?thesis
    by (simp add: admin_warn_def warn_command_def example_update the_admin_def ptb_def
        ptb_lenient_def p handle_violation_def mock_update_def and_then_def
        reply_text_def warn_env_def log_error_def emit_call_def group_world_simps example_counts)
qed

section \<open>The subscription sweep\<close>

text \<open>
  Claim C9, as the specification states it, fails: not every user id returned by
  \<open>get_expired_subscriptions\<close> is removed and cleaned up. The loop skips an id that has no
  User record. User 8 has a subscription that ran out and no record; the sweep, with every
  external call succeeding, leaves the state as it was: no removal from the group, the
  subscription still stored.
\<close>

theorem sweep_skips_unregistered_counterexample:
  "fst (get_expired_subscriptions True 63000000000000000 lapsed_world) = Inr [8]
  \<and> check_expired_subscriptions 99 True 63000000000000000 (\<lambda>u. sweep_ok) lapsed_world
      = (Inr (), lapsed_world)"
  by (simp add: check_expired_subscriptions_def get_expired_subscriptions_def and_then_def
      lapsed_world_def lapsed_def empty_world_def expire_user_def get_user_def sweep_ok_def)

text \<open>
  Claim C9, amended. With a group id recorded and the stored subscriptions holding one entry
  per user, the sweep returns normally, and what it does about a listed id \<open>u\<close> is what one
  pass of the loop does about \<open>u\<close> alone, whatever happened to the other ids of the list and
  whatever the outcomes of their calls. For an id without a User record, or whose record
  cannot be read, no call is made, the subscription stays and the records of the users are
  as before. For an id with a record the removal from the group is attempted; when Telegram
  refuses it, nothing else is done for that id: no notice, the subscription and the record
  stay. When the removal succeeds, the steps that follow are, in this order, the deletion of
  the subscription (with the clearing of the user's \<^verbatim>\<open>subscription_expiry\<close>), the banned flag
  and the notice to the administrator, and each of them is carried out whether or not the
  one before it succeeded: the subscription is gone exactly when its deletion succeeded, the
  flag is set exactly when its update succeeded, and the notice is attempted in every case.
  With no group id recorded the sweep does nothing.
\<close>

theorem sweep_handles_each_listed_user:
  assumes "group_id w = Some g" and "g \<noteq> 0"
    and "fst (get_expired_subscriptions lok now w) = Inr ids"
    and "distinct (map fst (subscriptions w))"
    and "u \<in> set ids"
  shows "fst (check_expired_subscriptions A lok now envs w) = Inr ()
     \<and> calls_about u (new_calls w (snd (check_expired_subscriptions A lok now envs w))) =
         (case users w u of
            None \<Rightarrow> []
          | Some d \<Rightarrow>
              if \<not> sw_find_ok (envs u) then []
              else if sw_ban_ok (envs u)
              then [(BanMember g u, True),
                    (SendMessage A (ExpiredAlert u (first_name d)), sw_notify_ok (envs u))]
              else [(BanMember g u, False)])
     \<and> map_of (subscriptions (snd (check_expired_subscriptions A lok now envs w))) u =
         (if users w u \<noteq> None \<and> sw_find_ok (envs u) \<and> sw_ban_ok (envs u)
             \<and> sw_delete_ok (envs u)
          then None else map_of (subscriptions w) u)
     \<and> users (snd (check_expired_subscriptions A lok now envs w)) u =
         (case users w u of
            None \<Rightarrow> None
          | Some d \<Rightarrow>
              if sw_find_ok (envs u) \<and> sw_ban_ok (envs u)
              then Some (d\<lparr>subscription_expiry :=
                             (if sw_delete_ok (envs u) \<and> sw_clear_ok (envs u) then None
                              else subscription_expiry d),
                           is_banned := (if sw_flag_ok (envs u) then True else is_banned d)\<rparr>)
              else Some d)
     \<and> (\<forall>w0 d e. users w0 u = Some d \<and> sw_find_ok e \<and> sw_ban_ok e \<longrightarrow>
           expire_user A e g u w0 =
             log_info ''Removed expired subscription user''
               (snd (notify_admin A (sw_notify_ok e) (ExpiredAlert u (first_name d))
                 (snd (set_user_banned (sw_flag_ok e) u True
                   (snd (remove_subscription (sw_delete_ok e) (sw_clear_ok e) u
                      (emit_call (BanMember g u) True w0))))))))
     \<and> (\<forall>w0. group_id w0 = None \<longrightarrow>
           check_expired_subscriptions A lok now envs w0 = (Inr (), w0))"
proof -
  define w1 where "w1 = snd (get_expired_subscriptions lok now w)"
  have u1: "users w1 = users w" and o1: "outbox w1 = outbox w"
    and s1: "subscriptions w1 = subscriptions w"
    by (simp_all add: w1_def get_expired_frame get_expired_subscriptions_frame)
  have eq: "check_expired_subscriptions A lok now envs w = (Inr (), expire_users A envs g ids w1)"
    unfolding w1_def using assms(1-3) by (rule sweep_unfold)
  have nc: "new_calls w w' = new_calls w1 w'" for w'
    using o1 by (rule new_calls_same_outbox)
  have dids: "distinct ids" using assms(3,4) by (rule expired_ids_distinct)
  have d1: "distinct (map fst (subscriptions w1))" using assms(4) by (simp add: s1)
  note own = expire_users_own[OF assms(5) dids d1, of A envs g]
  have calls: "new_calls w1 (expire_user A (envs u) g u w1) =
         (case users w u of
            None \<Rightarrow> []
          | Some d \<Rightarrow>
              if \<not> sw_find_ok (envs u) then []
              else if sw_ban_ok (envs u)
              then [(BanMember g u, True),
                    (SendMessage A (ExpiredAlert u (first_name d)), sw_notify_ok (envs u))]
              else [(BanMember g u, False)])"
    unfolding expire_user_new_calls u1 by (cases "users w u") simp_all
  have subs: "map_of (subscriptions (expire_user A (envs u) g u w1)) u =
         (if users w u \<noteq> None \<and> sw_find_ok (envs u) \<and> sw_ban_ok (envs u)
             \<and> sw_delete_ok (envs u)
          then None else map_of (subscriptions w) u)"
    using d1 by (auto simp: expire_user_map_of u1 s1)
  have usr: "users (expire_user A (envs u) g u w1) u =
         (case users w u of
            None \<Rightarrow> None
          | Some d \<Rightarrow>
              if sw_find_ok (envs u) \<and> sw_ban_ok (envs u)
              then Some (d\<lparr>subscription_expiry :=
                             (if sw_delete_ok (envs u) \<and> sw_clear_ok (envs u) then None
                              else subscription_expiry d),
                           is_banned := (if sw_flag_ok (envs u) then True else is_banned d)\<rparr>)
              else Some d)"
    by (simp add: expire_user_users u1)
  have order: "expire_user A e g u w0 =
             log_info ''Removed expired subscription user''
               (snd (notify_admin A (sw_notify_ok e) (ExpiredAlert u (first_name d))
                 (snd (set_user_banned (sw_flag_ok e) u True
                   (snd (remove_subscription (sw_delete_ok e) (sw_clear_ok e) u
                      (emit_call (BanMember g u) True w0)))))))"
    if "users w0 u = Some d" "sw_find_ok e" "sw_ban_ok e" for w0 d e
    by (simp add: expire_user_unfold that)
  have nogroup: "check_expired_subscriptions A lok now envs w0 = (Inr (), w0)"
    if "group_id w0 = None" for w0
    using that by (simp add: check_expired_subscriptions_def)
  have "calls_about u (new_calls w (snd (check_expired_subscriptions A lok now envs w))) =
      new_calls w1 (expire_user A (envs u) g u w1)"
    unfolding eq nc using own by simp
  moreover have "map_of (subscriptions (snd (check_expired_subscriptions A lok now envs w))) u
      = map_of (subscriptions (expire_user A (envs u) g u w1)) u"
    unfolding eq using own by simp
  moreover have "users (snd (check_expired_subscriptions A lok now envs w)) u
      = users (expire_user A (envs u) g u w1) u"
    unfolding eq using own by simp
  moreover have "fst (check_expired_subscriptions A lok now envs w) = Inr ()"
    unfolding eq by simp
  ultimately show ?thesis
    unfolding calls subs usr using order nogroup by blast
qed

theorem sweep_handles_each_listed_user_witness:
  "group_id sweep_world = Some (- 100)
   \<and> fst (get_expired_subscriptions True 63000000000000000 sweep_world) = Inr [7, 8, 9]
   \<and> distinct (map fst (subscriptions sweep_world))
   \<and> calls_about 9 (new_calls sweep_world
        (snd (check_expired_subscriptions 99 True 63000000000000000 ban_fails_for_7 sweep_world)))
      = [(BanMember (- 100) 9, True), (SendMessage 99 (ExpiredAlert 9 ''Nina''), True)]
   \<and> map_of (subscriptions
        (snd (check_expired_subscriptions 99 True 63000000000000000 ban_fails_for_7 sweep_world))) 9
      = None
   \<and> users (snd (check_expired_subscriptions 99 True 63000000000000000 ban_fails_for_7 sweep_world)) 9
      = Some (nina_doc\<lparr>subscription_expiry := None, is_banned := True\<rparr>)
   \<and> calls_about 7 (new_calls sweep_world
        (snd (check_expired_subscriptions 99 True 63000000000000000 ban_fails_for_7 sweep_world)))
      = [(BanMember (- 100) 7, False)]
   \<and> map_of (subscriptions
        (snd (check_expired_subscriptions 99 True 63000000000000000 ban_fails_for_7 sweep_world))) 7
      = Some lapsed
   \<and> users (snd (check_expired_subscriptions 99 True 63000000000000000 ban_fails_for_7 sweep_world)) 7
      = Some mallory_doc
   \<and> calls_about 8 (new_calls sweep_world
        (snd (check_expired_subscriptions 99 True 63000000000000000 ban_fails_for_7 sweep_world)))
      = []
   \<and> map_of (subscriptions
        (snd (check_expired_subscriptions 99 True 63000000000000000 ban_fails_for_7 sweep_world))) 8
      = Some lapsed"
proof -
  have g: "group_id sweep_world = Some (- 100)" and nz: "(- 100 :: int) \<noteq> 0"
    by (simp_all add: sweep_world_simps)
  have ids: "fst (get_expired_subscriptions True 63000000000000000 sweep_world) = Inr [7, 8, 9]"
    by (simp add: get_expired_subscriptions_def sweep_world_simps lapsed_def)
  have d: "distinct (map fst (subscriptions sweep_world))"
    by (simp add: sweep_world_simps)
  have e7: "sw_find_ok (ban_fails_for_7 7)" "\<not> sw_ban_ok (ban_fails_for_7 7)"
    and e8: "sw_find_ok (ban_fails_for_7 8)"
    and e9: "ban_fails_for_7 9 = sweep_ok"
    by (simp_all add: ban_fails_for_7_def sweep_ok_def)
  have u: "users sweep_world 7 = Some mallory_doc" "users sweep_world 8 = None"
    "users sweep_world 9 = Some nina_doc"
    by (simp_all add: sweep_world_simps)
  have s: "map_of (subscriptions sweep_world) 7 = Some lapsed"
    "map_of (subscriptions sweep_world) 8 = Some lapsed"
    by (simp_all add: sweep_world_simps)
  have n: "first_name nina_doc = ''Nina''" by (simp add: nina_doc_def)
  have m7: "(7::int) \<in> set [7, 8, 9]" and m8: "(8::int) \<in> set [7, 8, 9]"
    and m9: "(9::int) \<in> set [7, 8, 9]" by simp_all
  note t = sweep_handles_each_listed_user[OF g nz ids d, where A = 99 and envs = ban_fails_for_7]
  note t9 = t[OF m9] note t7 = t[OF m7] note t8 = t[OF m8]
  have k9: "calls_about 9 (new_calls sweep_world
        (snd (check_expired_subscriptions 99 True 63000000000000000 ban_fails_for_7 sweep_world)))
      = [(BanMember (- 100) 9, True), (SendMessage 99 (ExpiredAlert 9 ''Nina''), True)]"
    unfolding t9[THEN conjunct2, THEN conjunct1] by (simp add: u e9 sweep_ok_def n)
  have s9: "map_of (subscriptions
        (snd (check_expired_subscriptions 99 True 63000000000000000 ban_fails_for_7 sweep_world))) 9
      = None"
    unfolding t9[THEN conjunct2, THEN conjunct2, THEN conjunct1] by (simp add: u e9 sweep_ok_def)
  have u9: "users (snd (check_expired_subscriptions 99 True 63000000000000000 ban_fails_for_7 sweep_world)) 9
      = Some (nina_doc\<lparr>subscription_expiry := None, is_banned := True\<rparr>)"
    unfolding t9[THEN conjunct2, THEN conjunct2, THEN conjunct2, THEN conjunct1]
    by (simp add: u e9 sweep_ok_def)
  have c7: "calls_about 7 (new_calls sweep_world
        (snd (check_expired_subscriptions 99 True 63000000000000000 ban_fails_for_7 sweep_world)))
      = [(BanMember (- 100) 7, False)]"
    unfolding t7[THEN conjunct2, THEN conjunct1] by (simp add: u e7)
  have s7: "map_of (subscriptions
        (snd (check_expired_subscriptions 99 True 63000000000000000 ban_fails_for_7 sweep_world))) 7
      = Some lapsed"
    unfolding t7[THEN conjunct2, THEN conjunct2, THEN conjunct1] by (simp add: u e7 s)
  have u7: "users (snd (check_expired_subscriptions 99 True 63000000000000000 ban_fails_for_7 sweep_world)) 7
      = Some mallory_doc"
    unfolding t7[THEN conjunct2, THEN conjunct2, THEN conjunct2, THEN conjunct1]
    by (simp add: u e7)
  have c8: "calls_about 8 (new_calls sweep_world
        (snd (check_expired_subscriptions 99 True 63000000000000000 ban_fails_for_7 sweep_world)))
      = []"
    unfolding t8[THEN conjunct2, THEN conjunct1] by (simp add: u)
  have s8: "map_of (subscriptions
        (snd (check_expired_subscriptions 99 True 63000000000000000 ban_fails_for_7 sweep_world))) 8
      = Some lapsed"
    unfolding t8[THEN conjunct2, THEN conjunct2, THEN conjunct1] by (simp add: u s)
  show ?thesis
    using g ids d k9 s9 u9 c7 s7 u7 c8 s8 by blast
qed

section \<open>Subscriptions\<close>

text \<open>
  Claim C2 holds of the specification and not of the code. \<open>add_subscription\<close>, documented
  as adding or extending a subscription, does not read the stored expiry: it writes
  \<^verbatim>\<open>utcnow() + timedelta(days)\<close> whether a subscription exists or not. User 7 is given 30
  days at \<open>t0\<close>; one day later, 29 days before that expiry, the user is given 10 more
  days. The stored expiry is then \<open>t0\<close> plus 11 days: not the later of the two dates plus
  10 days (\<open>t0\<close> plus 40 days), and 19 days earlier than it was.
\<close>

theorem add_subscription_shortens_subscription:
  "map_option expiry_date (map_of (subscriptions subscribed_world) 7) = Some (t0 + 30 * DAY)
   \<and> t0 + DAY < t0 + 30 * DAY
   \<and> map_option expiry_date (map_of (subscriptions
        (snd (add_subscription True True (t0 + DAY) (t0 + DAY) 7 10 subscribed_world))) 7)
     = Some (t0 + 11 * DAY)
   \<and> t0 + 11 * DAY \<noteq> max (t0 + DAY) (t0 + 30 * DAY) + 10 * DAY
   \<and> t0 + 11 * DAY < t0 + 30 * DAY"
  by (simp add: subscribed_world_def add_subscription_def timedelta_days_def datetime_add_def
      DAY_def DATETIME_END_def t0_def group_world_simps update_user_doc_def log_info_def Let_def)

section \<open>The warning count under the operations of the store\<close>

text \<open>
  Claim C5, as the specification states it, fails: the store does offer an operation that
  decrements a count outside a reset and takes it below zero. \<open>update_user_warning\<close> has
  the parameter \<^verbatim>\<open>increment\<close>, and with \<^verbatim>\<open>increment=False\<close> it adds -1. On user 7,
  whose count is 0, it leaves -1.
\<close>

theorem decrement_below_zero_counterexample:
  "count_of group_world 7 = Some 0
   \<and> run_op True True (UpdateUserWarning 63000000000000005 7 False) group_world
     = (None, group_world\<lparr>users := [7 \<mapsto> mallory_doc\<lparr>warning_count := - 1\<rparr>]\<rparr>)
   \<and> count_of (snd (run_op True True (UpdateUserWarning 63000000000000005 7 False) group_world)) 7
     = Some (- 1)"
  by (simp add: example_counts update_user_warning_def update_user_doc_def group_world_simps
      count_of_def mallory_doc_def)

text \<open>
  Claim C5, amended. Under every operation of the store other than \<open>update_user_warning\<close>
  with \<^verbatim>\<open>increment=False\<close>, whatever the outcome of its driver calls, a user who has a
  record keeps one and the user's count does not decrease, except that
  \<open>reset_user_warnings\<close> may set it to 0; and if no count is negative before the operation,
  none is after it. (The bot itself calls \<open>update_user_warning\<close> with the default
  \<^verbatim>\<open>increment=True\<close> only.)
\<close>

theorem warning_count_monotone:
  assumes "\<not> is_decrement op"
  shows "(\<forall>u d. users w u = Some d \<longrightarrow>
            (\<exists>d'. users (snd (run_op ok1 ok2 op w)) u = Some d'
                \<and> (if is_reset op then warning_count d' = warning_count d \<or> warning_count d' = 0
                    else warning_count d \<le> warning_count d')))
       \<and> ((\<forall>u d. users w u = Some d \<longrightarrow> 0 \<le> warning_count d) \<longrightarrow>
            (\<forall>u d. users (snd (run_op ok1 ok2 op w)) u = Some d \<longrightarrow> 0 \<le> warning_count d))"
  using assms
  by (cases op)
    (auto simp: is_decrement_def is_reset_def store_defs log_error_def log_info_def
        update_user_doc_def Let_def split: sum.splits if_splits option.splits)

theorem warning_count_monotone_witness:
  "\<not> is_decrement (UpdateUserWarning 63000000000000005 7 True)
   \<and> \<not> is_reset (UpdateUserWarning 63000000000000005 7 True)
   \<and> users group_world 7 = Some mallory_doc
   \<and> (\<exists>d'. users (snd (run_op True True (UpdateUserWarning 63000000000000005 7 True) group_world)) 7
              = Some d'
          \<and> warning_count mallory_doc \<le> warning_count d')
   \<and> count_of group_world 7 = Some 0
   \<and> count_of (snd (run_op True True (UpdateUserWarning 63000000000000005 7 True) group_world)) 7
      = Some 1"
proof -
  have nd: "\<not> is_decrement (UpdateUserWarning 63000000000000005 7 True)"
    and nr: "\<not> is_reset (UpdateUserWarning 63000000000000005 7 True)"
    by (simp_all add: is_decrement_def is_reset_def)
  have u: "users group_world 7 = Some mallory_doc"
    by (simp add: group_world_simps)
  have t: "\<exists>d'. users (snd (run_op True True (UpdateUserWarning 63000000000000005 7 True) group_world)) 7
              = Some d'
          \<and> warning_count mallory_doc \<le> warning_count d'"
    using warning_count_monotone[OF nd, of group_world True True, THEN conjunct1, rule_format, OF u] nr
    by simp
  have e: "count_of (snd (run_op True True (UpdateUserWarning 63000000000000005 7 True) group_world)) 7
      = Some 1"
    by (simp add: update_user_warning_def count_of_simps u mallory_doc_def)
  show ?thesis
    using nd nr u t e example_counts(1) by blast
qed

section \<open>Classification of messages\<close>

text \<open>
  Claim C6 holds of the specification and not of the code. The first rule of
  \<open>handle_message\<close> reads \<^verbatim>\<open>message.forward_date\<close>, \<^verbatim>\<open>message.forward_from\<close> and
  \<^verbatim>\<open>message.forward_from_chat\<close>, attributes that a \<^verbatim>\<open>Message\<close> of the declared framework
  does not have. For every message that is not the administrator's the read raises
  AttributeError before any rule is evaluated: a link, a forward, a banned term and a
  harmless text all leave the handler with the exception and the state untouched. Only the
  administrator's exemption works. With a \<^verbatim>\<open>Message\<close> that has the three attributes, the
  same messages are classified as the specification says: forward first, then link, then
  banned term, and nothing for the harmless text.
\<close>

theorem handle_message_raises_before_classifying:
  "handle_message ptb 99 all_ok (update_from mallory link_message) group_world
     = (Inl AttributeError, group_world)
   \<and> handle_message ptb 99 all_ok (update_from mallory forwarded_message) group_world
     = (Inl AttributeError, group_world)
   \<and> handle_message ptb 99 all_ok (update_from mallory shout_message) group_world
     = (Inl AttributeError, group_world)
   \<and> handle_message ptb 99 all_ok (update_from mallory plain_message) group_world
     = (Inl AttributeError, group_world)
   \<and> handle_message ptb 99 all_ok (update_from the_admin link_message) group_world
     = (Inr (), group_world)
   \<and> handle_message ptb_with_forward_attrs 99 all_ok (update_from mallory forwarded_message)
       group_world
     = handle_violation ptb_with_forward_attrs 99 all_ok (update_from mallory forwarded_message)
         ''Forwarded message'' True group_world
   \<and> handle_message ptb_with_forward_attrs 99 all_ok (update_from mallory link_message)
       group_world
     = handle_violation ptb_with_forward_attrs 99 all_ok (update_from mallory link_message)
         ''External link'' True group_world
   \<and> handle_message ptb_with_forward_attrs 99 all_ok (update_from mallory shout_message)
       group_world
     = handle_violation ptb_with_forward_attrs 99 all_ok (update_from mallory shout_message)
         ''Suspicious content'' True group_world
   \<and> handle_message ptb_with_forward_attrs 99 all_ok (update_from mallory plain_message)
       group_world
     = (Inr (), group_world)"
proof -
  have ids: "tg_id mallory \<noteq> 99" "tg_id the_admin = 99"
    by (simp_all add: mallory_def the_admin_def)
  have admin: "handle_message ptb 99 all_ok (update_from the_admin link_message) group_world
     = (Inr (), group_world)"
    using hm_admin[of ptb the_admin all_ok link_message group_world] by (simp add: ids)
  have shout: "list_ex (\<lambda>term. str_contains term (lower (text_or_caption shout_message)))
                 suspicious_terms"
    by code_simp
  have plain: "\<not> list_ex (\<lambda>term. str_contains term (lower (text_or_caption plain_message)))
                 suspicious_terms"
    by code_simp
  have fwd: "handle_message ptb_with_forward_attrs 99 all_ok
               (update_from mallory forwarded_message) group_world
     = handle_violation ptb_with_forward_attrs 99 all_ok (update_from mallory forwarded_message)
         ''Forwarded message'' True group_world"
    by (simp add: handle_message_def example_update ids ptb_simps forwarded_message_def
        plain_message_def present_def)
  have link: "handle_message ptb_with_forward_attrs 99 all_ok
               (update_from mallory link_message) group_world
     = handle_violation ptb_with_forward_attrs 99 all_ok (update_from mallory link_message)
         ''External link'' True group_world"
    by (simp add: handle_message_def example_update ids ptb_simps link_message_def
        plain_message_def present_def nonempty_def entities_or_caption_entities_def)
  have fields: "forward_date shout_message = None" "forward_from shout_message = None"
    "forward_from_chat shout_message = None" "entities shout_message = []"
    "caption_entities shout_message = []"
    "forward_date plain_message = None" "forward_from plain_message = None"
    "forward_from_chat plain_message = None" "entities plain_message = []"
    "caption_entities plain_message = []"
    by (simp_all add: shout_message_def plain_message_def)
  have sus: "handle_message ptb_with_forward_attrs 99 all_ok
               (update_from mallory shout_message) group_world
     = handle_violation ptb_with_forward_attrs 99 all_ok (update_from mallory shout_message)
         ''Suspicious content'' True group_world"
    by (simp add: handle_message_def example_update ids ptb_simps fields shout
        present_def nonempty_def)
  have none: "handle_message ptb_with_forward_attrs 99 all_ok
               (update_from mallory plain_message) group_world = (Inr (), group_world)"
    by (simp add: handle_message_def example_update ids ptb_simps fields plain
        present_def nonempty_def)
  show ?thesis
    by (simp add: hm_no_forward_attrs[OF ptb_simps(1) ids(1)] admin fwd link sus none)
qed

end
